theory Spec2Isabelle
  imports Main
begin

section \<open>Tickets, users and the ticket game\<close>

text \<open>
  Embedding of \<^verbatim>\<open>server/chat-plugins/helptickets.ts\<close>. Times are JavaScript
  millisecond timestamps (integers far below \<open>2^53\<close>), modelled as \<open>int\<close>; every
  function that reads \<^verbatim>\<open>Date.now()\<close> takes the current time as the argument \<open>now\<close>.
\<close>

type_synonym ID = string

text \<open>
  \<^verbatim>\<open>interface TicketState\<close>. The optional flags \<^verbatim>\<open>needsDelayWarning\<close> and \<^verbatim>\<open>offline\<close>
  read as false when absent; \<^verbatim>\<open>claimed: string | null\<close> is an option.
\<close>

record TicketState =
  creator :: string
  userid :: ID
  "open" :: bool
  active :: bool
  type :: string
  created :: int
  claimed :: "string option"
  ip :: string
  needsDelayWarning :: bool
  offline :: bool

datatype TicketResult =
  approved | valid | assisted | denied | invalid | unassisted | ticketban | deleted

datatype Resolution = unknown | dead | unresolved | resolved

text \<open>The argument of \<^verbatim>\<open>close\<close> and \<^verbatim>\<open>writeStats\<close>: \<^verbatim>\<open>boolean | 'ticketban' | 'deleted'\<close>.\<close>

datatype CloseResult = RBool bool | RTicketban | RDeleted

text \<open>
  What the plugin reads of a \<^verbatim>\<open>User\<close>: \<open>uid\<close> is \<^verbatim>\<open>user.id\<close>, \<open>can_lock\<close> is
  \<^verbatim>\<open>user.can('lock')\<close>.
\<close>

record User =
  name :: string
  uid :: ID
  isStaff :: bool
  named :: bool
  can_lock :: bool
  previousIDs :: "ID list"

text \<open>
  \<^verbatim>\<open>class HelpTicket\<close>. The field \<open>ticket\<close> is a reference to the ticket object, which
  the table \<^verbatim>\<open>tickets\<close> may hold as well; \<open>involvedStaff\<close> is the \<^verbatim>\<open>Set\<close> in insertion
  order; \<open>playerTable\<close> and \<open>playerCount\<close> are the fields of the base class.
\<close>

record HelpTicket =
  ticket :: nat
  claimQueue :: "string list"
  involvedStaff :: "ID list"
  createTime :: int
  activationTime :: int
  emptyRoom :: bool
  firstClaimTime :: int
  unclaimedTime :: int
  lastUnclaimedStart :: int
  closeTime :: int
  resolution :: Resolution
  result :: "TicketResult option"
  playerTable :: "ID list"
  playerCount :: int

text \<open>
  One line of the statistics log, field by field in the order of the tab-separated
  line: type, total time, time to first claim, unclaimed time, resolution, result,
  comma-joined staff ids.
\<close>

record StatsLine =
  ticketType :: string
  totalTime :: int
  timeToFirstClaim :: int
  inactiveTime :: int
  lineResolution :: Resolution
  lineResult :: "TicketResult option"
  staff :: string

text \<open>
  The state outside a ticket game: the store of ticket objects (\<open>heap\<close>, with the next
  free reference), the table \<^verbatim>\<open>tickets\<close> from user id to ticket object, the help rooms
  that have a ticket game (\<^verbatim>\<open>Rooms.get(`help-${userid}`)\<close>, keyed by that user id), the
  lines appended to the statistics log, and the calls made to \<^verbatim>\<open>Punishments.roomPunish\<close>
  and \<^verbatim>\<open>room.expire()\<close>, which belong to other modules and are recorded, not interpreted.
  Writing the ticket file, the moderation log, room text and staff notifications are
  output only and are left out.
\<close>

record world =
  heap :: "nat \<Rightarrow> TicketState"
  nextRef :: nat
  tickets :: "ID \<Rightarrow> nat option"
  rooms :: "ID \<Rightarrow> HelpTicket option"
  statsLog :: "StatsLine list"
  roomPunishments :: "(ID \<times> int option \<times> string) list"
  expired :: "ID list"

text \<open>\<^verbatim>\<open>this.ticket\<close> read through the reference, and an update of that object.\<close>

definition tk :: "HelpTicket \<Rightarrow> world \<Rightarrow> TicketState" where
  "tk g w = heap w (ticket g)"

definition upd_tk :: "HelpTicket \<Rightarrow> (TicketState \<Rightarrow> TicketState) \<Rightarrow> world \<Rightarrow> world" where
  "upd_tk g f w = w\<lparr>heap := (heap w)(ticket g := f (heap w (ticket g)))\<rparr>"

text \<open>\<^verbatim>\<open>tickets[this.ticket.userid] = this.ticket\<close>.\<close>

definition store_ticket :: "HelpTicket \<Rightarrow> world \<Rightarrow> world" where
  "store_ticket g w = w\<lparr>tickets := (tickets w)(userid (tk g w) \<mapsto> ticket g)\<rparr>"

text \<open>JavaScript truthiness of a \<^verbatim>\<open>string | null\<close>: null and the empty string are falsy.\<close>

definition truthy :: "string option \<Rightarrow> bool" where
  "truthy c = (case c of None \<Rightarrow> False | Some n \<Rightarrow> n \<noteq> [])"

text \<open>
  The global helper \<^verbatim>\<open>toID\<close> is not part of this file; every function that calls it
  takes it as its first argument. Applied to \<^verbatim>\<open>null\<close> it yields the empty id.
\<close>

definition toID_of :: "(string \<Rightarrow> ID) \<Rightarrow> string option \<Rightarrow> ID" where
  "toID_of toID c = (case c of None \<Rightarrow> [] | Some n \<Rightarrow> toID n)"

text \<open>
  The usual \<^verbatim>\<open>toID\<close>, used for concrete runs: lower-case the ASCII letters and keep
  only letters and digits.
\<close>

definition lower_char :: "char \<Rightarrow> char" where
  "lower_char c =
    (case map_of (zip ''ABCDEFGHIJKLMNOPQRSTUVWXYZ'' ''abcdefghijklmnopqrstuvwxyz'') c of
       None \<Rightarrow> c | Some l \<Rightarrow> l)"

definition toID_std :: "string \<Rightarrow> ID" where
  "toID_std s =
    filter (\<lambda>c. c \<in> set ''abcdefghijklmnopqrstuvwxyz0123456789'') (map lower_char s)"

text \<open>
  Modelled from the spec: \<^verbatim>\<open>RoomGame.addPlayer\<close> and \<^verbatim>\<open>RoomGame.removePlayer\<close> belong to
  the base class, which is not in this file. The participants of a ticket are a table
  keyed by user id, with a count: adding a user already in the table changes nothing,
  removing deletes the entry and decrements the count.
\<close>

definition addPlayer :: "User \<Rightarrow> HelpTicket \<Rightarrow> HelpTicket" where
  "addPlayer user g =
    (if uid user \<in> set (playerTable g) then g
     else g\<lparr>playerTable := playerTable g @ [uid user], playerCount := playerCount g + 1\<rparr>)"

definition removePlayer :: "ID \<Rightarrow> HelpTicket \<Rightarrow> HelpTicket" where
  "removePlayer i g =
    (if i \<in> set (playerTable g)
     then g\<lparr>playerTable := removeAll i (playerTable g), playerCount := playerCount g - 1\<rparr>
     else g)"

text \<open>\<^verbatim>\<open>Set.add\<close> on the insertion-ordered list.\<close>

definition set_add :: "ID \<Rightarrow> ID list \<Rightarrow> ID list" where
  "set_add x xs = (if x \<in> set xs then xs else xs @ [x])"

text \<open>\<^verbatim>\<open>Array.join(',')\<close>.\<close>

fun join_comma :: "string list \<Rightarrow> string" where
  "join_comma [] = []"
| "join_comma [x] = x"
| "join_comma (x # y # ys) = x @ '','' @ join_comma (y # ys)"

text \<open>The constructor: \<open>r\<close> is the ticket object, \<open>now\<close> the creation time.\<close>

definition new_HelpTicket :: "nat \<Rightarrow> int \<Rightarrow> world \<Rightarrow> HelpTicket" where
  "new_HelpTicket r now w =
    \<lparr>ticket = r, claimQueue = [], involvedStaff = [], createTime = now,
     activationTime = (if active (heap w r) then now else 0),
     emptyRoom = False, firstClaimTime = 0, unclaimedTime = 0,
     lastUnclaimedStart = (if active (heap w r) then now else 0),
     closeTime = 0, resolution = unknown, result = None,
     playerTable = [], playerCount = 0\<rparr>"

text \<open>
  \<^verbatim>\<open>onJoin(user, connection)\<close>; \<open>roomUsers\<close> is \<^verbatim>\<open>Object.entries(this.room.users)\<close> at the
  time of the call. The return value is not used by any claim and is dropped.
\<close>

definition onJoin ::
  "User \<Rightarrow> User list \<Rightarrow> int \<Rightarrow> HelpTicket \<Rightarrow> world \<Rightarrow> HelpTicket \<times> world" where
  "onJoin user roomUsers now g w =
    (if \<not> open (tk g w) then (g, w)
     else if \<not> isStaff user \<or> uid user = userid (tk g w) then
       (let g1 = (if emptyRoom g then g\<lparr>emptyRoom := False\<rparr> else g);
            g2 = addPlayer user g1
        in (g2, if offline (tk g w) then upd_tk g2 (\<lambda>t. t\<lparr>offline := False\<rparr>) w else w))
     else if \<not> truthy (claimed (tk g w)) then
       (let w1 = upd_tk g (\<lambda>t. t\<lparr>claimed := Some (name user)\<rparr>) w;
            g1 = (if firstClaimTime g = 0 then
                    (let users = filter
                           (\<lambda>u. \<not> ((isStaff u \<and> uid u \<noteq> userid (tk g w1)) \<or> \<not> named u))
                           roomUsers
                     in if users = [] then g\<lparr>firstClaimTime := now, emptyRoom := True\<rparr>
                        else g\<lparr>firstClaimTime := now\<rparr>)
                  else g);
            g2 = (if active (tk g w1) then
                    g1\<lparr>unclaimedTime := unclaimedTime g1 + (now - lastUnclaimedStart g1),
                       lastUnclaimedStart := 0\<rparr>
                  else g1)
        in (g2, store_ticket g2 w1))
     else (g\<lparr>claimQueue := claimQueue g @ [name user]\<rparr>, w))"

text \<open>
  \<^verbatim>\<open>this.claimQueue.map(toID).indexOf(id)\<close> followed by \<^verbatim>\<open>splice(index, 1)\<close>: the first
  entry whose id is \<open>i\<close> is removed, if there is one.
\<close>

fun splice_id :: "(string \<Rightarrow> ID) \<Rightarrow> ID \<Rightarrow> string list \<Rightarrow> string list" where
  "splice_id toID i [] = []"
| "splice_id toID i (x # xs) = (if toID x = i then xs else x # splice_id toID i xs)"

text \<open>
  \<^verbatim>\<open>onLeave(user, oldUserid)\<close>. \<^verbatim>\<open>this.claimQueue.shift() || null\<close> turns an empty name
  into \<^verbatim>\<open>null\<close>.
\<close>

definition onLeave ::
  "(string \<Rightarrow> ID) \<Rightarrow> User \<Rightarrow> ID \<Rightarrow> int \<Rightarrow> HelpTicket \<Rightarrow> world \<Rightarrow> HelpTicket \<times> world" where
  "onLeave toID user oldUserid now g w =
    (let key = (if oldUserid \<noteq> [] then oldUserid else uid user) in
     if key \<in> set (playerTable g) then
       (removePlayer key g, upd_tk g (\<lambda>t. t\<lparr>offline := True\<rparr>) w)
     else if \<not> open (tk g w) then (g, w)
     else if toID_of toID (claimed (tk g w)) = uid user then
       (case claimQueue g of
          h # rest \<Rightarrow>
            (let g1 = g\<lparr>claimQueue := rest\<rparr>;
                 w1 = upd_tk g1 (\<lambda>t. t\<lparr>claimed := (if h = [] then None else Some h)\<rparr>) w
             in (g1, store_ticket g1 w1))
        | [] \<Rightarrow>
            (let w1 = upd_tk g (\<lambda>t. t\<lparr>claimed := None\<rparr>) w;
                 g1 = g\<lparr>lastUnclaimedStart := now\<rparr>
             in (g1, store_ticket g1 w1)))
     else (g\<lparr>claimQueue := splice_id toID (uid user) (claimQueue g)\<rparr>, w))"

definition blockedMessages :: "string list" where
  "blockedMessages =
    [''hi'', ''hello'', ''hullo'', ''hey'', ''yo'', ''ok'',
     ''hesrude'', ''shesrude'', ''hesinappropriate'', ''shesinappropriate'',
     ''heswore'', ''sheswore'', ''help'', ''yes'']"

text \<open>\<^verbatim>\<open>onLogMessage(message, user)\<close>.\<close>

definition onLogMessage ::
  "(string \<Rightarrow> ID) \<Rightarrow> string \<Rightarrow> User \<Rightarrow> int \<Rightarrow> HelpTicket \<Rightarrow> world \<Rightarrow> HelpTicket \<times> world" where
  "onLogMessage toID message user now g w =
    (if \<not> open (tk g w) then (g, w)
     else
       (let g1 = (if isStaff user \<and> userid (tk g w) \<noteq> uid user
                  then g\<lparr>involvedStaff := set_add (uid user) (involvedStaff g)\<rparr> else g)
        in if active (tk g w) then (g1, w)
           else if (\<not> isStaff user \<or> userid (tk g w) = uid user)
                   \<and> toID message \<in> set blockedMessages then (g1, w)
           else if (\<not> isStaff user \<or> userid (tk g w) = uid user) \<and> \<not> active (tk g w) then
             (let w1 = upd_tk g1 (\<lambda>t. t\<lparr>active := True\<rparr>) w;
                  g2 = g1\<lparr>activationTime := now\<rparr>;
                  g3 = (if \<not> truthy (claimed (tk g2 w1))
                        then g2\<lparr>lastUnclaimedStart := now\<rparr> else g2)
              in (g3, upd_tk g3 (\<lambda>t. t\<lparr>needsDelayWarning := True\<rparr>) w1))
           else (g1, w)))"

text \<open>The table of \<^verbatim>\<open>writeStats\<close> from a boolean outcome and the ticket type to the result.\<close>

definition boolResult :: "string \<Rightarrow> bool \<Rightarrow> TicketResult" where
  "boolResult ty b =
    (if ty \<in> set [''Appeal'', ''IP-Appeal'', ''ISP-Appeal'']
       then (if b then approved else denied)
     else if ty \<in> set [''PM Harassment'', ''Battle Harassment'', ''Inappropriate Username'',
                        ''Inappropriate Pokemon Nicknames'']
       then (if b then valid else invalid)
     else (if b then assisted else unassisted))"

text \<open>
  \<^verbatim>\<open>HelpTicket.writeStats(result)\<close>, with the module function \<^verbatim>\<open>writeStats(line)\<close> as
  the append to \<open>statsLog\<close>.
\<close>

definition writeStats :: "CloseResult \<Rightarrow> int \<Rightarrow> HelpTicket \<Rightarrow> world \<Rightarrow> HelpTicket \<times> world" where
  "writeStats res now g w =
    (let g1 = g\<lparr>closeTime := now\<rparr>;
         g2 = (if lastUnclaimedStart g1 \<noteq> 0
               then g1\<lparr>unclaimedTime := unclaimedTime g1 + (closeTime g1 - lastUnclaimedStart g1)\<rparr>
               else g1);
         g3 = g2\<lparr>resolution :=
                   (if \<not> active (tk g w) then dead
                    else if firstClaimTime g2 = 0 \<or> emptyRoom g2 then unresolved
                    else resolved)\<rparr>;
         g4 = g3\<lparr>result :=
                   Some (case res of RBool b \<Rightarrow> boolResult (type (tk g w)) b
                         | RTicketban \<Rightarrow> ticketban | RDeleted \<Rightarrow> deleted)\<rparr>;
         firstClaimWait =
           (if activationTime g4 \<noteq> 0
            then (if firstClaimTime g4 \<noteq> 0 then firstClaimTime g4 else closeTime g4)
                 - activationTime g4
            else 0);
         involved = (if activationTime g4 \<noteq> 0 then join_comma (involvedStaff g4) else [])
     in (g4, w\<lparr>statsLog := statsLog w @
            [\<lparr>ticketType = type (tk g w), totalTime = closeTime g4 - createTime g4,
              timeToFirstClaim = firstClaimWait, inactiveTime = unclaimedTime g4,
              lineResolution = resolution g4, lineResult = result g4,
              staff = involved\<rparr>]\<rparr>))"

text \<open>\<^verbatim>\<open>close(result, staff?)\<close>.\<close>

definition close ::
  "(string \<Rightarrow> ID) \<Rightarrow> CloseResult \<Rightarrow> User option \<Rightarrow> int \<Rightarrow> HelpTicket \<Rightarrow> world
    \<Rightarrow> HelpTicket \<times> world" where
  "close toID res staffUser now g w =
    (let w1 = store_ticket g (upd_tk g (\<lambda>t. t\<lparr>open := False\<rparr>) w);
         g1 = fold removePlayer (playerTable g) g;
         g2 = (if involvedStaff g1 = [] then
                 (if (case staffUser of None \<Rightarrow> False
                      | Some s \<Rightarrow> isStaff s \<and> uid s \<noteq> userid (tk g1 w1))
                  then g1\<lparr>involvedStaff := set_add (uid (the staffUser)) (involvedStaff g1)\<rparr>
                  else g1\<lparr>involvedStaff :=
                          set_add (toID_of toID (claimed (tk g1 w1))) (involvedStaff g1)\<rparr>)
               else g1)
     in writeStats res now g2 w1)"

text \<open>\<^verbatim>\<open>forfeit(user)\<close>.\<close>

definition forfeit ::
  "(string \<Rightarrow> ID) \<Rightarrow> User \<Rightarrow> int \<Rightarrow> HelpTicket \<Rightarrow> world \<Rightarrow> HelpTicket \<times> world" where
  "forfeit toID user now g w =
    (if uid user \<notin> set (playerTable g) then (g, w)
     else
       (let g1 = removePlayer (uid user) g in
        if \<not> open (tk g1 w) then (g1, w)
        else if playerCount g1 - 1 > 0 then (g1, w)
        else close toID (RBool (firstClaimTime g1 \<noteq> 0)) (Some user) now g1 w))"

text \<open>
  \<^verbatim>\<open>destroy()\<close>, up to the statistics; the fields it sets to \<^verbatim>\<open>null\<close> afterwards are
  not read again.
\<close>

definition destroy :: "int \<Rightarrow> HelpTicket \<Rightarrow> world \<Rightarrow> HelpTicket \<times> world" where
  "destroy now g w =
    (if tickets w (userid (tk g w)) \<noteq> None \<and> open (tk g w) then
       writeStats (RBool False) now g (store_ticket g (upd_tk g (\<lambda>t. t\<lparr>open := False\<rparr>) w))
     else (g, w))"

section \<open>Events on one ticket game\<close>

datatype event =
  Join User "User list" int
| Leave User ID int
| LogMessage string User int
| Forfeit User int
| Close CloseResult "User option" int

fun step :: "(string \<Rightarrow> ID) \<Rightarrow> event \<Rightarrow> HelpTicket \<times> world \<Rightarrow> HelpTicket \<times> world" where
  "step toID (Join u us now) (g, w) = onJoin u us now g w"
| "step toID (Leave u old now) (g, w) = onLeave toID u old now g w"
| "step toID (LogMessage m u now) (g, w) = onLogMessage toID m u now g w"
| "step toID (Forfeit u now) (g, w) = forfeit toID u now g w"
| "step toID (Close r s now) (g, w) = close toID r s now g w"

definition run ::
  "(string \<Rightarrow> ID) \<Rightarrow> event list \<Rightarrow> HelpTicket \<times> world \<Rightarrow> HelpTicket \<times> world" where
  "run toID es s = fold (step toID) es s"

section \<open>The escalation timer\<close>

definition NOTIFY_ALL_TIMEOUT :: int where
  "NOTIFY_ALL_TIMEOUT = 5 * 60 * 1000"

definition NOTIFY_ASSIST_TIMEOUT :: int where
  "NOTIFY_ASSIST_TIMEOUT = 60 * 1000"

text \<open>
  The two module-level tables \<^verbatim>\<open>unclaimedTicketTimer\<close> and \<^verbatim>\<open>timerEnds\<close> are only ever
  indexed by the id of the room returned by \<^verbatim>\<open>Rooms.get('staff')\<close>, so one slot of each is
  kept. A pending \<^verbatim>\<open>setTimeout(f, d)\<close> issued at time \<open>now\<close> is the pair of its firing time
  \<open>now + d\<close> and the flag captured by its callback; \<open>None\<close> is \<^verbatim>\<open>null\<close>.
\<close>

record TimerState =
  unclaimedTicketTimer :: "(int \<times> bool) option"
  timerEnds :: int

definition setTimeout :: "bool \<Rightarrow> int \<Rightarrow> int \<Rightarrow> (int \<times> bool) option" where
  "setTimeout flag delay now = Some (now + delay, flag)"

text \<open>
  \<^verbatim>\<open>pokeUnclaimedTicketTimer(hasUnclaimed, hasAssistRequest)\<close>; \<open>staffRoom\<close> says whether
  \<^verbatim>\<open>Rooms.get('staff')\<close> exists.
\<close>

definition pokeUnclaimedTicketTimer ::
  "bool \<Rightarrow> bool \<Rightarrow> bool \<Rightarrow> int \<Rightarrow> TimerState \<Rightarrow> TimerState" where
  "pokeUnclaimedTicketTimer staffRoom hasUnclaimed hasAssistRequest now s =
    (if \<not> staffRoom then s
     else if hasUnclaimed \<and> unclaimedTicketTimer s = None then
       s\<lparr>unclaimedTicketTimer :=
            setTimeout hasAssistRequest
              (if hasAssistRequest then NOTIFY_ASSIST_TIMEOUT else NOTIFY_ALL_TIMEOUT) now,
         timerEnds :=
            now + (if hasAssistRequest then NOTIFY_ASSIST_TIMEOUT else NOTIFY_ALL_TIMEOUT)\<rparr>
     else if hasAssistRequest
           \<and> timerEnds s - NOTIFY_ASSIST_TIMEOUT > NOTIFY_ASSIST_TIMEOUT
           \<and> unclaimedTicketTimer s \<noteq> None then
       s\<lparr>unclaimedTicketTimer := setTimeout hasAssistRequest NOTIFY_ASSIST_TIMEOUT now,
         timerEnds := now + NOTIFY_ASSIST_TIMEOUT\<rparr>
     else if \<not> hasUnclaimed \<and> unclaimedTicketTimer s \<noteq> None then
       s\<lparr>unclaimedTicketTimer := None, timerEnds := 0\<rparr>
     else s)"

text \<open>The time at which the pending timer fires, if one is pending.\<close>

definition firesAt :: "TimerState \<Rightarrow> int option" where
  "firesAt s = map_option fst (unclaimedTicketTimer s)"


section \<open>Commands and filters on the whole state\<close>

text \<open>What a chat command hands back: the help page, an error reply, or its normal reply.\<close>

datatype reply = HelpPage | ErrorReply | Reply

text \<open>
  \<^verbatim>\<open>commands.helpticket.close\<close>. \<open>inputUsername\<close> and \<open>rest\<close> are what
  \<^verbatim>\<open>this.splitTarget(target)\<close> leaves in \<^verbatim>\<open>this.inputUsername\<close> and returns. The local
  \<^verbatim>\<open>ticket\<close> is the object \<open>r\<close> found in the table, and the final assignment
  \<^verbatim>\<open>ticket.claimed = user.name\<close> goes to that object.
\<close>

definition close_cmd ::
  "(string \<Rightarrow> ID) \<Rightarrow> string \<Rightarrow> string \<Rightarrow> string \<Rightarrow> User \<Rightarrow> int \<Rightarrow> world
    \<Rightarrow> reply \<times> world" where
  "close_cmd toID target inputUsername rest user now w =
    (if target = [] then (HelpPage, w)
     else
       (case tickets w (toID inputUsername) of
          None \<Rightarrow> (ErrorReply, w)
        | Some r \<Rightarrow>
            if \<not> open (heap w r) \<or> (userid (heap w r) \<noteq> uid user \<and> \<not> can_lock user)
            then (ErrorReply, w)
            else
              (let w1 =
                 (case rooms w (userid (heap w r)) of
                    Some g \<Rightarrow>
                      (let res = (if userid (heap w r) = uid user \<and> \<not> isStaff user
                                  then firstClaimTime g \<noteq> 0
                                  else rest \<noteq> ''false'');
                           s = close toID (RBool res) (Some user) now g w
                       in (snd s)\<lparr>rooms := (rooms (snd s))(userid (heap w r) \<mapsto> fst s)\<rparr>)
                  | None \<Rightarrow> w\<lparr>heap := (heap w)(r := (heap w r)\<lparr>open := False\<rparr>)\<rparr>)
               in (Reply,
                   w1\<lparr>heap := (heap w1)(r := (heap w1 r)\<lparr>claimed := Some (name user)\<rparr>)\<rparr>))))"

text \<open>
  \<^verbatim>\<open>punishmentfilter\<close>: the branch for a user id, and the filter itself, which for a
  \<^verbatim>\<open>User\<close> object calls itself on the user's id and each previous id. \<open>ptype\<close> is
  \<^verbatim>\<open>punishment[0]\<close>.
\<close>

definition punishmentfilter_id :: "(string \<Rightarrow> ID) \<Rightarrow> ID \<Rightarrow> int \<Rightarrow> world \<Rightarrow> world" where
  "punishmentfilter_id toID i now w =
    (case rooms w (toID i) of
       None \<Rightarrow> w
     | Some g \<Rightarrow>
         (let s = close toID RTicketban None now g w
          in (snd s)\<lparr>rooms := (rooms (snd s))(toID i \<mapsto> fst s)\<rparr>))"

definition punishmentfilter ::
  "(string \<Rightarrow> ID) \<Rightarrow> User + ID \<Rightarrow> string \<Rightarrow> int \<Rightarrow> world \<Rightarrow> world" where
  "punishmentfilter toID user ptype now w =
    (if ptype \<noteq> ''BAN'' then w
     else
       (case user of
          Inl u \<Rightarrow> fold (\<lambda>i. punishmentfilter_id toID i now) (uid u # previousIDs u) w
        | Inr i \<Rightarrow> punishmentfilter_id toID i now w))"

section \<open>Loading the persisted ticket table\<close>

definition TICKET_CACHE_TIME :: int where
  "TICKET_CACHE_TIME = 24 * 60 * 60 * 1000"

text \<open>
  An entry of the parsed ticket file: an old-format ban (\<^verbatim>\<open>ticket.banned\<close> truthy) with
  its user id, optional expiry and reason, or a ticket.
\<close>

datatype Persisted = BannedEntry ID "int option" string | TicketEntry TicketState

text \<open>A freshly parsed object placed in the store.\<close>

definition alloc :: "TicketState \<Rightarrow> world \<Rightarrow> nat \<times> world" where
  "alloc t w = (nextRef w, w\<lparr>heap := (heap w)(nextRef w := t), nextRef := nextRef w + 1\<rparr>)"

text \<open>
  The body of the loop over \<^verbatim>\<open>ticketData\<close>; \<open>oldPlugins\<close> is
  \<^verbatim>\<open>Chat.oldPlugins.helptickets\<close> being set (a hot reload).
\<close>

definition load_entry :: "bool \<Rightarrow> int \<Rightarrow> string \<times> Persisted \<Rightarrow> world \<Rightarrow> world" where
  "load_entry oldPlugins now e w =
    (case snd e of
       BannedEntry i exp reason \<Rightarrow>
         if (case exp of None \<Rightarrow> False | Some x \<Rightarrow> x \<noteq> 0 \<and> x \<le> now) then w
         else w\<lparr>roomPunishments := roomPunishments w @ [(i, exp, reason)]\<rparr>
     | TicketEntry t \<Rightarrow>
         if created t + TICKET_CACHE_TIME \<le> now then
           (case rooms w (userid t) of
              Some g \<Rightarrow>
                (let s = writeStats (RBool False) now g w
                 in (snd s)\<lparr>rooms := (rooms (snd s))(userid t \<mapsto> fst s),
                            expired := expired (snd s) @ [userid t]\<rparr>)
            | None \<Rightarrow> w)
         else
           (let a = alloc (if open t \<and> \<not> oldPlugins then t\<lparr>open := False\<rparr> else t) w
            in (snd a)\<lparr>tickets := (tickets (snd a))(fst e \<mapsto> fst a)\<rparr>))"

text \<open>
  The load block: \<open>file\<close> is the parsed content of the ticket file in key order, or
  \<open>None\<close> when reading raises \<^verbatim>\<open>ENOENT\<close>. The table starts empty.
\<close>

definition load_tickets ::
  "bool \<Rightarrow> int \<Rightarrow> (string \<times> Persisted) list option \<Rightarrow> world \<Rightarrow> world" where
  "load_tickets oldPlugins now file w =
    (case file of
       None \<Rightarrow> w\<lparr>tickets := Map.empty\<rparr>
     | Some ticketData \<Rightarrow> fold (load_entry oldPlugins now) ticketData (w\<lparr>tickets := Map.empty\<rparr>))"

text \<open>The ticket the table holds for a key, read through the store.\<close>

definition live :: "world \<Rightarrow> ID \<Rightarrow> TicketState option" where
  "live w k = map_option (heap w) (tickets w k)"

section \<open>Notions the claims are stated with\<close>

text \<open>
  The calls to \<^verbatim>\<open>Punishments.roomPunish\<close> a ticket file gives rise to: one for each
  banned entry that has no expiry or an expiry later than \<open>now\<close>, in the order of the file.
\<close>

definition converted_bans ::
  "int \<Rightarrow> (string \<times> Persisted) list \<Rightarrow> (ID \<times> int option \<times> string) list" where
  "converted_bans now ticketData =
    concat (map (\<lambda>e. case snd e of
                        BannedEntry i exp reason \<Rightarrow>
                          if (case exp of None \<Rightarrow> False | Some x \<Rightarrow> x \<noteq> 0 \<and> x \<le> now)
                          then [] else [(i, exp, reason)]
                      | TicketEntry t \<Rightarrow> [])
                ticketData)"

text \<open>The time at which an event happens.\<close>

fun time_of :: "event \<Rightarrow> int" where
  "time_of (Join u us now) = now"
| "time_of (Leave u old now) = now"
| "time_of (LogMessage m u now) = now"
| "time_of (Forfeit u now) = now"
| "time_of (Close r s now) = now"

text \<open>
  The unclaimed time as the specification words it: the sum of the intervals between
  consecutive events during which the ticket is open, active and without a claimant.
  \<open>prev\<close> is the time of the previous event (the creation time at the start), so with
  a closing event last the sum runs up to the close.
\<close>

fun spec_unclaimedTime ::
  "(string \<Rightarrow> ID) \<Rightarrow> int \<Rightarrow> event list \<Rightarrow> HelpTicket \<times> world \<Rightarrow> int" where
  "spec_unclaimedTime toID prev [] s = 0"
| "spec_unclaimedTime toID prev (e # es) s =
    (if open (tk (fst s) (snd s)) \<and> active (tk (fst s) (snd s))
        \<and> \<not> truthy (claimed (tk (fst s) (snd s)))
     then time_of e - prev else 0)
    + spec_unclaimedTime toID (time_of e) es (step toID e s)"

text \<open>The claimant, by name or by id, is also waiting in the claim queue.\<close>

definition claimant_queued :: "(string \<Rightarrow> ID) \<Rightarrow> HelpTicket \<times> world \<Rightarrow> bool" where
  "claimant_queued toID s =
    (case claimed (tk (fst s) (snd s)) of
       None \<Rightarrow> False
     | Some n \<Rightarrow> n \<in> set (claimQueue (fst s)) \<or> toID n \<in> set (map toID (claimQueue (fst s))))"

text \<open>
  A sequence of join and leave events in which identities behave as users in a room do:
  a staff member (other than the requester \<open>cid\<close>) joins under a non-empty name whose id
  is \<^verbatim>\<open>toID\<close> of it, only while not among the staff \<open>present\<close> and not a player; other
  users join only under ids no present staff member has; nobody leaves under an old id.
  \<open>present\<close> and \<open>players\<close> follow the staff and the players in the room.
\<close>

fun alternating :: "(string \<Rightarrow> ID) \<Rightarrow> ID \<Rightarrow> ID list \<Rightarrow> ID list \<Rightarrow> event list \<Rightarrow> bool" where
  "alternating toID cid present players [] = True"
| "alternating toID cid present players (Join u us now # es) =
    (if isStaff u \<and> uid u \<noteq> cid
     then name u \<noteq> [] \<and> toID (name u) = uid u \<and> uid u \<notin> set present \<and> uid u \<notin> set players
          \<and> alternating toID cid (uid u # present) players es
     else uid u \<notin> set present \<and> alternating toID cid present (uid u # players) es)"
| "alternating toID cid present players (Leave u old now # es) =
    (old = [] \<and> alternating toID cid (removeAll (uid u) present) (removeAll (uid u) players) es)"
| "alternating toID cid present players (e # es) = False"

text \<open>
  The invariant behind it: the players are as tracked and are not staff present, the
  queue holds non-empty names with distinct ids of staff present, and the claimant, if
  any, is a staff member present whose id is not in the queue; without a claimant the
  queue is empty.
\<close>

definition queue_inv ::
  "(string \<Rightarrow> ID) \<Rightarrow> ID list \<Rightarrow> ID list \<Rightarrow> HelpTicket \<Rightarrow> world \<Rightarrow> bool" where
  "queue_inv toID present players g w =
    (open (tk g w)
     \<and> set (playerTable g) = set players
     \<and> set present \<inter> set players = {}
     \<and> distinct (map toID (claimQueue g))
     \<and> toID ` set (claimQueue g) \<subseteq> set present
     \<and> [] \<notin> set (claimQueue g)
     \<and> (case claimed (tk g w) of
          None \<Rightarrow> claimQueue g = []
        | Some n \<Rightarrow> n \<noteq> [] \<and> toID n \<in> set present \<and> toID n \<notin> toID ` set (claimQueue g)))"

text \<open>The state in which the help room of the ticket holds this game.\<close>

definition in_room :: "HelpTicket \<times> world \<Rightarrow> world" where
  "in_room s = (snd s)\<lparr>rooms := (rooms (snd s))(userid (tk (fst s) (snd s)) \<mapsto> fst s)\<rparr>"

text \<open>The table entry and the game of its help room, if there is one, are the same object.\<close>

definition linked :: "world \<Rightarrow> nat \<Rightarrow> bool" where
  "linked w r = (case rooms w (userid (heap w r)) of None \<Rightarrow> True | Some g \<Rightarrow> ticket g = r)"

section \<open>Sample data for concrete runs\<close>

text \<open>
  A named user whose id is the usual \<^verbatim>\<open>toID\<close> of the name; the requester \<open>Ann\<close> with a
  ticket of type \<open>ty\<close>, active or not, created at time \<open>1000\<close>; the state right after
  creation, with the requester as the only player.
\<close>

definition mkUser :: "string \<Rightarrow> bool \<Rightarrow> User" where
  "mkUser n s =
    \<lparr>name = n, uid = toID_std n, isStaff = s, named = True, can_lock = s, previousIDs = []\<rparr>"

definition ticket0 :: "string \<Rightarrow> bool \<Rightarrow> TicketState" where
  "ticket0 ty act =
    \<lparr>creator = ''Ann'', userid = ''ann'', open = True, active = act, type = ty,
     created = 1000, claimed = None, ip = ''10.0.0.1'', needsDelayWarning = False,
     offline = False\<rparr>"

definition world0 :: "string \<Rightarrow> bool \<Rightarrow> world" where
  "world0 ty act =
    \<lparr>heap = (\<lambda>r. ticket0 ty act), nextRef = 1, tickets = [''ann'' \<mapsto> 0],
     rooms = Map.empty, statsLog = [], roomPunishments = [], expired = []\<rparr>"

definition game0 :: "string \<Rightarrow> bool \<Rightarrow> HelpTicket" where
  "game0 ty act = addPlayer (mkUser ''Ann'' False) (new_HelpTicket 0 1000 (world0 ty act))"

section \<open>Theorems\<close>

subsection \<open>Reading and evaluating the state\<close>

lemma tk_upd_tk [simp]: "ticket g' = ticket g \<Longrightarrow> tk g' (upd_tk g f w) = f (tk g w)"
  by (simp add: tk_def upd_tk_def)

lemma tk_store_ticket [simp]: "tk g' (store_ticket g w) = tk g' w"
  by (simp add: tk_def store_ticket_def)

lemmas eval_defs = run_def onJoin_def onLeave_def tk_def upd_tk_def store_ticket_def
  truthy_def toID_of_def toID_std_def lower_char_def mkUser_def ticket0_def world0_def game0_def
  addPlayer_def removePlayer_def new_HelpTicket_def claimant_queued_def Let_def


subsection \<open>C1: the claimant and the claim queue\<close>

lemma splice_id_absent: "i \<notin> toID ` set q \<Longrightarrow> splice_id toID i q = q"
  by (induction q) auto

lemma splice_id_subset: "set (splice_id toID i q) \<subseteq> set q"
  by (induction q) auto

lemma splice_id_distinct:
  "distinct (map toID q) \<Longrightarrow> distinct (map toID (splice_id toID i q))
     \<and> i \<notin> toID ` set (splice_id toID i q)"
proof (induction q)
  case Nil
  then show ?case by simp
next
  case (Cons x q)
  have sub: "set (splice_id toID i q) \<subseteq> set q" by (rule splice_id_subset)
  from Cons show ?case using sub by auto
qed

lemma onJoin_ticket [simp]: "ticket (fst (onJoin u us now g w)) = ticket g"
  by (simp add: onJoin_def addPlayer_def Let_def)

lemma onLeave_ticket [simp]: "ticket (fst (onLeave toID u old now g w)) = ticket g"
  by (simp add: onLeave_def removePlayer_def Let_def split: list.splits)

lemma queue_inv_join_staff:
  assumes inv: "queue_inv toID present players g w"
    and st: "isStaff u" "uid u \<noteq> userid (tk g w)"
    and wf: "name u \<noteq> []" "toID (name u) = uid u" "uid u \<notin> set present" "uid u \<notin> set players"
  shows "queue_inv toID (uid u # present) players
           (fst (onJoin u us now g w)) (snd (onJoin u us now g w))"
  using assms
  by (auto simp: queue_inv_def onJoin_def Let_def truthy_def tk_def upd_tk_def store_ticket_def
      split: option.splits)

lemma queue_inv_join_other:
  assumes inv: "queue_inv toID present players g w"
    and st: "\<not> (isStaff u \<and> uid u \<noteq> userid (tk g w))"
    and wf: "uid u \<notin> set present"
  shows "queue_inv toID present (uid u # players)
           (fst (onJoin u us now g w)) (snd (onJoin u us now g w))"
  using assms
  by (auto simp: queue_inv_def onJoin_def addPlayer_def Let_def tk_def upd_tk_def
      split: option.splits)

lemma queue_inv_leave:
  assumes inv: "queue_inv toID present players g w"
  shows "queue_inv toID (removeAll (uid u) present) (removeAll (uid u) players)
           (fst (onLeave toID u [] now g w)) (snd (onLeave toID u [] now g w))"
proof (cases "uid u \<in> set (playerTable g)")
  case True
  with inv have "uid u \<notin> set present" by (auto simp: queue_inv_def)
  then have "removeAll (uid u) present = present" by simp
  with inv True show ?thesis
    by (auto simp: queue_inv_def onLeave_def removePlayer_def Let_def tk_def upd_tk_def
        split: option.splits)
next
  case notplayer: False
  show ?thesis
  proof (cases "toID_of toID (claimed (tk g w)) = uid u")
    case True
    show ?thesis
    proof (cases "claimQueue g")
      case Nil
      with inv notplayer True show ?thesis
        by (auto simp: queue_inv_def onLeave_def Let_def tk_def upd_tk_def store_ticket_def
            toID_of_def split: option.splits)
    next
      case (Cons h rest)
      from inv obtain a where a: "claimed (tk g w) = Some a"
        by (auto simp: queue_inv_def Cons split: option.splits)
      with True have au: "toID a = uid u" by (simp add: toID_of_def)
      from inv Cons have h: "h \<noteq> []" "toID h \<in> set present" "toID h \<notin> toID ` set rest"
        "toID h \<noteq> uid u" "uid u \<notin> toID ` set rest" "toID ` set rest \<subseteq> set present"
        "distinct (map toID rest)" "[] \<notin> set rest"
        using a au by (auto simp: queue_inv_def)
      have res: "onLeave toID u [] now g w =
          (g\<lparr>claimQueue := rest\<rparr>,
           store_ticket (g\<lparr>claimQueue := rest\<rparr>)
             (upd_tk (g\<lparr>claimQueue := rest\<rparr>) (\<lambda>t. t\<lparr>claimed := Some h\<rparr>) w))"
        using inv notplayer True Cons h(1) by (simp add: onLeave_def Let_def queue_inv_def)
      from inv have base: "open (tk g w)" "set (playerTable g) = set players"
        "set present \<inter> set players = {}" "uid u \<notin> set players"
        using notplayer by (auto simp: queue_inv_def)
      have nu: "toID x \<noteq> uid u" if "x \<in> set rest" for x
        using h(5) that by (metis imageI)
      show ?thesis
        unfolding res queue_inv_def using h base nu
        by (auto simp: tk_def upd_tk_def store_ticket_def)
    qed
  next
    case False
    let ?q = "splice_id toID (uid u) (claimQueue g)"
    have d: "distinct (map toID (claimQueue g))" using inv by (simp add: queue_inv_def)
    have dq: "distinct (map toID ?q)" and nq: "uid u \<notin> toID ` set ?q"
      using splice_id_distinct [OF d, of "uid u"] by simp_all
    have sub: "set ?q \<subseteq> set (claimQueue g)" by (rule splice_id_subset)
    have res: "onLeave toID u [] now g w = (g\<lparr>claimQueue := ?q\<rparr>, w)"
      using inv notplayer False by (simp add: onLeave_def Let_def queue_inv_def)
    have el: "toID x \<in> set present \<and> toID x \<noteq> uid u \<and> x \<noteq> []" if "x \<in> set ?q" for x
    proof -
      from that sub have "x \<in> set (claimQueue g)" by blast
      with inv have "toID x \<in> set present" "x \<noteq> []" by (auto simp: queue_inv_def)
      moreover from nq that have "toID x \<noteq> uid u" by (metis imageI)
      ultimately show ?thesis by simp
    qed
    have cl: "case claimed (tk g w) of None \<Rightarrow> ?q = []
              | Some n \<Rightarrow> n \<noteq> [] \<and> toID n \<in> set (removeAll (uid u) present)
                          \<and> toID n \<notin> toID ` set ?q"
    proof (cases "claimed (tk g w)")
      case None
      with inv have "claimQueue g = []" by (simp add: queue_inv_def)
      with None show ?thesis by simp
    next
      case (Some n)
      with inv have n: "n \<noteq> []" "toID n \<in> set present" "toID n \<notin> toID ` set (claimQueue g)"
        by (auto simp: queue_inv_def)
      from Some False have "toID n \<noteq> uid u" by (simp add: toID_of_def)
      moreover from n(3) sub have "toID n \<notin> toID ` set ?q" by blast
      ultimately show ?thesis using Some n by simp
    qed
    from inv have base: "open (tk g w)" "set (playerTable g) = set players"
      "set present \<inter> set players = {}" "uid u \<notin> set players"
      using notplayer by (auto simp: queue_inv_def)
    have tkq: "tk (g\<lparr>claimQueue := ?q\<rparr>) w = tk g w" by (simp add: tk_def)
    show ?thesis
      unfolding res queue_inv_def fst_conv snd_conv tkq
      using base dq el cl by (auto split: option.splits)
  qed
qed

lemma queue_inv_run:
  "queue_inv toID present players g w \<Longrightarrow>
   alternating toID (userid (tk g w)) present players es \<Longrightarrow>
   \<exists>present' players'.
     queue_inv toID present' players' (fst (run toID es (g, w))) (snd (run toID es (g, w)))"
proof (induction es arbitrary: present players g w)
  case Nil
  then show ?case by (auto simp: run_def)
next
  case (Cons e es)
  show ?case
  proof (cases e)
    case (Join u us now)
    obtain g' w' where s: "onJoin u us now g w = (g', w')" by force
    have uidk: "userid (tk g' w') = userid (tk g w)"
      using s by (auto simp: onJoin_def Let_def tk_def upd_tk_def store_ticket_def addPlayer_def
          split: if_splits)
    show ?thesis
    proof (cases "isStaff u \<and> uid u \<noteq> userid (tk g w)")
      case True
      with Cons.prems Join have
        inv': "queue_inv toID (uid u # present) players g' w'"
        using queue_inv_join_staff [of toID present players g w u us now] s by auto
      from Cons.prems Join True have "alternating toID (userid (tk g' w')) (uid u # present) players es"
        by (simp add: uidk)
      from Cons.IH [OF inv' this] show ?thesis using Join s by (simp add: run_def)
    next
      case False
      with Cons.prems Join have
        inv': "queue_inv toID present (uid u # players) g' w'"
        using queue_inv_join_other [of toID present players g w u us now] s by auto
      from Cons.prems Join False have "alternating toID (userid (tk g' w')) present (uid u # players) es"
        by (auto simp: uidk)
      from Cons.IH [OF inv' this] show ?thesis using Join s by (simp add: run_def)
    qed
  next
    case (Leave u old now)
    with Cons.prems have old: "old = []" by simp
    obtain g' w' where s: "onLeave toID u [] now g w = (g', w')" by force
    have uidk: "userid (tk g' w') = userid (tk g w)"
      using s by (auto simp: onLeave_def Let_def tk_def upd_tk_def store_ticket_def removePlayer_def
          split: if_splits list.splits)
    have inv': "queue_inv toID (removeAll (uid u) present) (removeAll (uid u) players) g' w'"
      using queue_inv_leave [OF Cons.prems(1), of u now] s by simp
    from Cons.prems Leave have
      "alternating toID (userid (tk g' w')) (removeAll (uid u) present) (removeAll (uid u) players) es"
      by (simp add: uidk)
    from Cons.IH [OF inv' this] show ?thesis using Leave s old by (simp add: run_def)
  next
    case (LogMessage m u now)
    with Cons.prems show ?thesis by simp
  next
    case (Forfeit u now)
    with Cons.prems show ?thesis by simp
  next
    case (Close r st now)
    with Cons.prems show ?thesis by simp
  qed
qed

lemma queue_inv_not_queued:
  "queue_inv toID present players g w \<Longrightarrow> \<not> claimant_queued toID (g, w)"
  by (auto simp: queue_inv_def claimant_queued_def split: option.splits)

lemma alternating_take:
  "alternating toID cid present players es \<Longrightarrow> alternating toID cid present players (take n es)"
proof (induction toID cid present players es arbitrary: n rule: alternating.induct)
  case (1 toID cid present players)
  then show ?case by simp
next
  case (2 toID cid present players u us now es)
  then show ?case by (cases n) (auto split: if_splits)
next
  case (3 toID cid present players u old now es)
  then show ?case by (cases n) auto
qed simp_all


text \<open>
  C1 (amended). \<^verbatim>\<open>claimed\<close> is a single optional name, so at most one identity holds it
  at any time. On an open, unclaimed ticket with an empty queue, after every prefix of a
  sequence of join and leave events in which each staff member joins only while absent
  (under a non-empty name whose id is \<^verbatim>\<open>toID\<close> of it, distinct from the players' ids) and
  nobody leaves under an old id, the claimant is not in the claim queue, neither by name
  nor by id.
\<close>

theorem C1_claimant_never_queued:
  assumes "open (tk g w)" and "claimed (tk g w) = None" and "claimQueue g = []"
    and "alternating toID (userid (tk g w)) [] (playerTable g) es"
  shows "\<not> claimant_queued toID (run toID (take n es) (g, w))"
proof -
  have "queue_inv toID [] (playerTable g) g w"
    using assms(1-3) by (simp add: queue_inv_def)
  moreover have "alternating toID (userid (tk g w)) [] (playerTable g) (take n es)"
    using assms(4) by (rule alternating_take)
  ultimately obtain present' players' where
    "queue_inv toID present' players'
       (fst (run toID (take n es) (g, w))) (snd (run toID (take n es) (g, w)))"
    using queue_inv_run by blast
  then show ?thesis using queue_inv_not_queued by fastforce
qed

theorem C1_witness:
  "alternating toID_std ''ann'' [] [''ann'']
     [Join (mkUser ''A'' True) [] 2000, Join (mkUser ''B'' True) [] 3000,
      Join (mkUser ''C'' True) [] 4000, Leave (mkUser ''A'' True) [] 5000]
   \<and> \<not> claimant_queued toID_std
       (run toID_std
         [Join (mkUser ''A'' True) [] 2000, Join (mkUser ''B'' True) [] 3000,
          Join (mkUser ''C'' True) [] 4000, Leave (mkUser ''A'' True) [] 5000]
         (game0 ''Other'' False, world0 ''Other'' False))"
proof -
  let ?es = "[Join (mkUser ''A'' True) [] 2000, Join (mkUser ''B'' True) [] 3000,
      Join (mkUser ''C'' True) [] 4000, Leave (mkUser ''A'' True) [] 5000]"
  have a: "alternating toID_std ''ann'' [] [''ann''] ?es"
    by (simp add: mkUser_def toID_std_def lower_char_def)
  have g: "open (tk (game0 ''Other'' False) (world0 ''Other'' False))"
     "claimed (tk (game0 ''Other'' False) (world0 ''Other'' False)) = None"
     "claimQueue (game0 ''Other'' False) = []"
     "userid (tk (game0 ''Other'' False) (world0 ''Other'' False)) = ''ann''"
     "playerTable (game0 ''Other'' False) = [''ann'']"
    by (simp_all add: eval_defs)
  have "\<not> claimant_queued toID_std (run toID_std (take 4 ?es)
            (game0 ''Other'' False, world0 ''Other'' False))"
    by (rule C1_claimant_never_queued) (simp_all only: g a)
  then show ?thesis using a by simp
qed

text \<open>
  C1 as stated fails. Staff member \<open>A\<close> claims the ticket, renames to \<open>A2\<close> and leaves
  (the leave is not recognised as the claimant's, so the claim stays with \<open>A\<close>), then
  joins again as \<open>A\<close>: the name is appended to the queue while it is the claimant.
\<close>

theorem C1_counterexample:
  "claimant_queued toID_std
     (run toID_std
        [Join (mkUser ''A'' True) [mkUser ''Ann'' False, mkUser ''A'' True] 2000,
         Leave (mkUser ''A2'' True) [] 3000,
         Join (mkUser ''A'' True) [mkUser ''Ann'' False, mkUser ''A'' True] 4000]
        (game0 ''Other'' False, world0 ''Other'' False))"
  by (simp add: eval_defs)


subsection \<open>C5: the escalation timer\<close>

text \<open>
  C5 (the code departs from the claim). A long-delay timer was started at time
  \<open>1700000000000\<close>, so it fires at \<open>1700000300000\<close>. At \<open>1700000290000\<close>, with ten
  seconds left (less than the short delay of sixty seconds), an urgent ticket is
  unclaimed and the timer is poked. The guard compares the absolute end time, not the
  time remaining, with the short delay, so the timer is rescheduled and now fires at
  \<open>1700000350000\<close>: fifty seconds later than before.
\<close>

theorem C5_timer_lengthened:
  "firesAt (pokeUnclaimedTicketTimer True True False 1700000000000
              \<lparr>unclaimedTicketTimer = None, timerEnds = 0\<rparr>) = Some 1700000300000
   \<and> firesAt (pokeUnclaimedTicketTimer True True True 1700000290000
       (pokeUnclaimedTicketTimer True True False 1700000000000
              \<lparr>unclaimedTicketTimer = None, timerEnds = 0\<rparr>)) = Some 1700000350000"
  by (simp add: pokeUnclaimedTicketTimer_def setTimeout_def firesAt_def
      NOTIFY_ALL_TIMEOUT_def NOTIFY_ASSIST_TIMEOUT_def)

subsection \<open>C2: the claimant leaves\<close>

text \<open>
  C2. On an open ticket, when the user whose id is that of the claimant leaves and is
  not a player: if the claim queue is \<open>b # rest\<close> (\<open>b\<close> a non-empty name, as every user
  name is), \<open>b\<close> becomes the claimant and the queue is \<open>rest\<close>; if the queue is empty,
  \<^verbatim>\<open>claimed\<close> is cleared and \<^verbatim>\<open>lastUnclaimedStart\<close> is the time of the leave.
\<close>

theorem C2_leave_of_claimant:
  assumes "open (tk g w)" and "claimed (tk g w) = Some a" and "toID a = uid user"
    and "(if oldUserid \<noteq> [] then oldUserid else uid user) \<notin> set (playerTable g)"
  shows "(claimQueue g = b # rest \<and> b \<noteq> [] \<longrightarrow>
            claimed (tk (fst (onLeave toID user oldUserid now g w))
                        (snd (onLeave toID user oldUserid now g w))) = Some b
            \<and> claimQueue (fst (onLeave toID user oldUserid now g w)) = rest)
       \<and> (claimQueue g = [] \<longrightarrow>
            claimed (tk (fst (onLeave toID user oldUserid now g w))
                        (snd (onLeave toID user oldUserid now g w))) = None
            \<and> lastUnclaimedStart (fst (onLeave toID user oldUserid now g w)) = now)"
  using assms by (auto simp: onLeave_def toID_of_def Let_def)

text \<open>
  The example of the specification: \<open>A\<close> claims, \<open>B\<close> and \<open>C\<close> queue up, \<open>A\<close> leaves;
  and \<open>A\<close> leaving when nobody waits.
\<close>

theorem C2_witness:
  "(let s = run toID_std
              [Join (mkUser ''A'' True) [] 2000, Join (mkUser ''B'' True) [] 3000,
               Join (mkUser ''C'' True) [] 4000]
              (game0 ''Other'' True, world0 ''Other'' True);
        s' = onLeave toID_std (mkUser ''A'' True) [] 5000 (fst s) (snd s);
        t = onJoin (mkUser ''A'' True) [] 2000 (game0 ''Other'' True) (world0 ''Other'' True);
        t' = onLeave toID_std (mkUser ''A'' True) [] 5000 (fst t) (snd t)
    in claimed (tk (fst s) (snd s)) = Some ''A'' \<and> claimQueue (fst s) = [''B'', ''C'']
       \<and> claimed (tk (fst s') (snd s')) = Some ''B'' \<and> claimQueue (fst s') = [''C'']
       \<and> claimed (tk (fst t) (snd t)) = Some ''A'' \<and> claimQueue (fst t) = []
       \<and> claimed (tk (fst t') (snd t')) = None \<and> lastUnclaimedStart (fst t') = 5000)"
proof -
  let ?s = "run toID_std
              [Join (mkUser ''A'' True) [] 2000, Join (mkUser ''B'' True) [] 3000,
               Join (mkUser ''C'' True) [] 4000]
              (game0 ''Other'' True, world0 ''Other'' True)"
  let ?t = "onJoin (mkUser ''A'' True) [] 2000 (game0 ''Other'' True) (world0 ''Other'' True)"
  have s: "open (tk (fst ?s) (snd ?s))" "claimed (tk (fst ?s) (snd ?s)) = Some ''A''"
    "toID_std ''A'' = uid (mkUser ''A'' True)"
    "(if [] \<noteq> ([]::ID) then [] else uid (mkUser ''A'' True)) \<notin> set (playerTable (fst ?s))"
    and sq: "claimQueue (fst ?s) = [''B'', ''C'']"
    by (simp_all add: eval_defs)
  have t: "open (tk (fst ?t) (snd ?t))" "claimed (tk (fst ?t) (snd ?t)) = Some ''A''"
    "toID_std ''A'' = uid (mkUser ''A'' True)"
    "(if [] \<noteq> ([]::ID) then [] else uid (mkUser ''A'' True)) \<notin> set (playerTable (fst ?t))"
    and tq: "claimQueue (fst ?t) = []"
    by (simp_all add: eval_defs)
  note C2_leave_of_claimant
    [where toID = toID_std and a = "''A''" and user = "mkUser ''A'' True" and oldUserid = "[]"
       and b = "''B''" and rest = "[''C'']" and now = 5000]
  from this [of "fst ?s" "snd ?s", OF s] this [of "fst ?t" "snd ?t", OF t] s(2) t(2) sq tq
  show ?thesis by (simp add: Let_def)
qed

subsection \<open>Closing a ticket\<close>

lemma fold_removePlayer_fields [simp]:
  "ticket (fold removePlayer xs g) = ticket g"
  "claimQueue (fold removePlayer xs g) = claimQueue g"
  "involvedStaff (fold removePlayer xs g) = involvedStaff g"
  "createTime (fold removePlayer xs g) = createTime g"
  "activationTime (fold removePlayer xs g) = activationTime g"
  "emptyRoom (fold removePlayer xs g) = emptyRoom g"
  "firstClaimTime (fold removePlayer xs g) = firstClaimTime g"
  "unclaimedTime (fold removePlayer xs g) = unclaimedTime g"
  "lastUnclaimedStart (fold removePlayer xs g) = lastUnclaimedStart g"
  "closeTime (fold removePlayer xs g) = closeTime g"
  "resolution (fold removePlayer xs g) = resolution g"
  "result (fold removePlayer xs g) = result g"
  by (induction xs arbitrary: g) (simp_all add: removePlayer_def)

lemmas close_defs = close_def writeStats_def Let_def tk_def upd_tk_def store_ticket_def
  set_add_def

subsection \<open>C6: the resolution\<close>

text \<open>
  C6 (amended). At close the resolution is \<open>dead\<close> if the ticket is not active;
  otherwise \<open>unresolved\<close> if \<^verbatim>\<open>firstClaimTime\<close> is zero (never claimed) or the flag
  \<^verbatim>\<open>emptyRoom\<close> is set at that moment; otherwise \<open>resolved\<close>; and this is the resolution
  written to the statistics line. The flag is set at the first claim when the room holds
  no named user who is the requester or not staff, and it is cleared again whenever the
  requester or a user who is not staff joins the open ticket.
\<close>

theorem C6_resolution_at_close:
  "resolution (fst (close toID res st now g w)) =
     (if \<not> active (tk g w) then dead
      else if firstClaimTime g = 0 \<or> emptyRoom g then unresolved else resolved)
   \<and> lineResolution (last (statsLog (snd (close toID res st now g w)))) =
       resolution (fst (close toID res st now g w))
   \<and> (open (tk g w) \<and> isStaff u \<and> uid u \<noteq> userid (tk g w) \<and> \<not> truthy (claimed (tk g w))
        \<and> firstClaimTime g = 0 \<longrightarrow>
        emptyRoom (fst (onJoin u us t g w)) =
          (emptyRoom g
           \<or> filter (\<lambda>v. \<not> ((isStaff v \<and> uid v \<noteq> userid (tk g w)) \<or> \<not> named v)) us = []))
   \<and> (open (tk g w) \<and> (\<not> isStaff u \<or> uid u = userid (tk g w)) \<longrightarrow>
        \<not> emptyRoom (fst (onJoin u us t g w)))"
proof -
  have 1: "resolution (fst (close toID res st now g w)) =
     (if \<not> active (tk g w) then dead
      else if firstClaimTime g = 0 \<or> emptyRoom g then unresolved else resolved)"
    by (simp add: close_defs)
  have 2: "lineResolution (last (statsLog (snd (close toID res st now g w)))) =
       resolution (fst (close toID res st now g w))"
    by (simp add: close_defs)
  have 3: "open (tk g w) \<and> isStaff u \<and> uid u \<noteq> userid (tk g w) \<and> \<not> truthy (claimed (tk g w))
        \<and> firstClaimTime g = 0 \<longrightarrow>
        emptyRoom (fst (onJoin u us t g w)) =
          (emptyRoom g
           \<or> filter (\<lambda>v. \<not> ((isStaff v \<and> uid v \<noteq> userid (tk g w)) \<or> \<not> named v)) us = [])"
    by (simp add: onJoin_def Let_def tk_def upd_tk_def)
  have 4: "open (tk g w) \<and> (\<not> isStaff u \<or> uid u = userid (tk g w)) \<longrightarrow>
        \<not> emptyRoom (fst (onJoin u us t g w))"
    by (auto simp: onJoin_def Let_def addPlayer_def)
  from 1 2 3 4 show ?thesis by blast
qed

text \<open>
  An active ticket; staff member \<open>X\<close> makes the first claim while only staff are in the
  room, the requester joins afterwards, and \<open>X\<close> closes the ticket.
\<close>

theorem C6_witness:
  "(let s1 = onJoin (mkUser ''X'' True) [mkUser ''X'' True] 2000
               (game0 ''Other'' True) (world0 ''Other'' True);
        s2 = onJoin (mkUser ''Ann'' False) [mkUser ''X'' True, mkUser ''Ann'' False] 3000
               (fst s1) (snd s1);
        s3 = close toID_std (RBool True) (Some (mkUser ''X'' True)) 4000 (fst s2) (snd s2)
    in emptyRoom (fst s1) \<and> \<not> emptyRoom (fst s2) \<and> resolution (fst s3) = resolved
       \<and> lineResolution (last (statsLog (snd s3))) = resolved)"
proof -
  let ?g0 = "game0 ''Other'' True" and ?w0 = "world0 ''Other'' True"
  let ?s1 = "onJoin (mkUser ''X'' True) [mkUser ''X'' True] 2000 ?g0 ?w0"
  let ?s2 = "onJoin (mkUser ''Ann'' False) [mkUser ''X'' True, mkUser ''Ann'' False] 3000
               (fst ?s1) (snd ?s1)"
  have h0: "open (tk ?g0 ?w0) \<and> isStaff (mkUser ''X'' True)
      \<and> uid (mkUser ''X'' True) \<noteq> userid (tk ?g0 ?w0) \<and> \<not> truthy (claimed (tk ?g0 ?w0))
      \<and> firstClaimTime ?g0 = 0"
    and f0: "filter (\<lambda>v. \<not> ((isStaff v \<and> uid v \<noteq> userid (tk ?g0 ?w0)) \<or> \<not> named v))
               [mkUser ''X'' True] = []"
    by (simp_all add: eval_defs)
  have h1: "open (tk (fst ?s1) (snd ?s1))
      \<and> (\<not> isStaff (mkUser ''Ann'' False) \<or> uid (mkUser ''Ann'' False) = userid (tk (fst ?s1) (snd ?s1)))"
    by (simp add: eval_defs)
  have h2: "active (tk (fst ?s2) (snd ?s2))" "firstClaimTime (fst ?s2) = 2000"
    by (simp_all add: eval_defs)
  note C6_resolution_at_close [where toID = toID_std]
  from this [of "RBool True" "Some (mkUser ''X'' True)" 4000 "fst ?s2" "snd ?s2"
                "mkUser ''X'' True" "[mkUser ''X'' True]" 2000]
       C6_resolution_at_close [of toID_std "RBool True" None 0 ?g0 ?w0
                "mkUser ''X'' True" "[mkUser ''X'' True]" 2000]
       C6_resolution_at_close [of toID_std "RBool True" None 0 "fst ?s1" "snd ?s1"
                "mkUser ''Ann'' False" "[mkUser ''X'' True, mkUser ''Ann'' False]" 3000]
       h0 f0 h1 h2
  show ?thesis by (simp add: Let_def)
qed

text \<open>
  C6 as stated fails on that run: the ticket is active, the room had no participant
  other than staff at the moment of the first claim, and yet the ticket closes as
  \<open>resolved\<close>, not \<open>unresolved\<close>.
\<close>

theorem C6_counterexample:
  "(let s1 = onJoin (mkUser ''X'' True) [mkUser ''X'' True] 2000
               (game0 ''Other'' True) (world0 ''Other'' True);
        s3 = run toID_std
               [Join (mkUser ''Ann'' False) [mkUser ''X'' True, mkUser ''Ann'' False] 3000,
                Close (RBool True) (Some (mkUser ''X'' True)) 4000] s1
    in active (tk (fst s3) (snd s3))
       \<and> firstClaimTime (game0 ''Other'' True) = 0 \<and> firstClaimTime (fst s1) = 2000
       \<and> filter (\<lambda>v. \<not> ((isStaff v \<and> uid v \<noteq> ''ann'') \<or> \<not> named v)) [mkUser ''X'' True] = []
       \<and> resolution (fst s3) = resolved \<and> resolution (fst s3) \<noteq> unresolved)"
  by (simp add: eval_defs close_defs)

subsection \<open>C9: the staff named in the statistics line\<close>

text \<open>
  C9 (amended). At close an empty \<^verbatim>\<open>involvedStaff\<close> is filled with the id of the closing
  user if that user is staff and not the requester, and otherwise with \<^verbatim>\<open>toID\<close> of the
  ticket's \<^verbatim>\<open>claimed\<close> value at that moment (the empty id if the ticket is unclaimed); a
  non-empty one is left as it is. The last field of the line written is the comma-joined
  \<^verbatim>\<open>involvedStaff\<close> if the ticket was ever activated (\<^verbatim>\<open>activationTime\<close> not zero), and
  empty if it was not.
\<close>

theorem C9_involved_staff_at_close:
  "involvedStaff (fst (close toID res st now g w)) =
     (if involvedStaff g = [] then
        [if (case st of None \<Rightarrow> False | Some s \<Rightarrow> isStaff s \<and> uid s \<noteq> userid (tk g w))
         then uid (the st) else toID_of toID (claimed (tk g w))]
      else involvedStaff g)
   \<and> staff (last (statsLog (snd (close toID res st now g w)))) =
       (if activationTime g \<noteq> 0
        then join_comma (involvedStaff (fst (close toID res st now g w))) else [])"
  by (cases st) (simp_all add: close_defs)

text \<open>
  An active ticket that staff member \<open>X\<close> claims and closes without having spoken is
  attributed to \<open>X\<close>; closed by the requester after \<open>X\<close> and \<open>Y\<close> spoke, to both.
\<close>

theorem C9_witness:
  "(let a = onJoin (mkUser ''X'' True) [] 2000 (game0 ''Other'' True) (world0 ''Other'' True);
        s1 = close toID_std (RBool True) (Some (mkUser ''X'' True)) 3000 (fst a) (snd a);
        b1 = onLogMessage toID_std ''on it'' (mkUser ''X'' True) 2000
               (game0 ''Other'' True) (world0 ''Other'' True);
        b = onLogMessage toID_std ''me too'' (mkUser ''Y'' True) 2500 (fst b1) (snd b1);
        s2 = close toID_std (RBool True) (Some (mkUser ''Ann'' False)) 3000 (fst b) (snd b)
    in involvedStaff (fst s1) = [''x''] \<and> staff (last (statsLog (snd s1))) = ''x''
       \<and> involvedStaff (fst s2) = [''x'', ''y''] \<and> staff (last (statsLog (snd s2))) = ''x,y'')"
proof -
  let ?a = "onJoin (mkUser ''X'' True) [] 2000 (game0 ''Other'' True) (world0 ''Other'' True)"
  let ?b1 = "onLogMessage toID_std ''on it'' (mkUser ''X'' True) 2000
               (game0 ''Other'' True) (world0 ''Other'' True)"
  let ?b = "onLogMessage toID_std ''me too'' (mkUser ''Y'' True) 2500 (fst ?b1) (snd ?b1)"
  have a: "involvedStaff (fst ?a) = []" "userid (tk (fst ?a) (snd ?a)) = ''ann''"
    "activationTime (fst ?a) = 1000"
    by (simp_all add: eval_defs)
  have x: "isStaff (mkUser ''X'' True)" "uid (mkUser ''X'' True) = ''x''"
    by (simp_all add: mkUser_def toID_std_def lower_char_def)
  have b: "involvedStaff (fst ?b) = [''x'', ''y'']" "activationTime (fst ?b) = 1000"
    by (simp_all add: eval_defs onLogMessage_def set_add_def)
  have 1: "involvedStaff (fst (close toID_std (RBool True) (Some (mkUser ''X'' True)) 3000
                                (fst ?a) (snd ?a))) = [''x'']
        \<and> staff (last (statsLog (snd (close toID_std (RBool True) (Some (mkUser ''X'' True))
                                3000 (fst ?a) (snd ?a))))) = ''x''"
    using C9_involved_staff_at_close
         [of toID_std "RBool True" "Some (mkUser ''X'' True)" 3000 "fst ?a" "snd ?a"]
    by (simp add: a x)
  have 2: "involvedStaff (fst (close toID_std (RBool True) (Some (mkUser ''Ann'' False)) 3000
                                (fst ?b) (snd ?b))) = [''x'', ''y'']
        \<and> staff (last (statsLog (snd (close toID_std (RBool True) (Some (mkUser ''Ann'' False))
                                3000 (fst ?b) (snd ?b))))) = ''x,y''"
    using C9_involved_staff_at_close
         [of toID_std "RBool True" "Some (mkUser ''Ann'' False)" 3000 "fst ?b" "snd ?b"]
    by (simp add: b)
  from 1 2 show ?thesis by (simp only: Let_def)
qed

text \<open>
  C9 as stated fails for a ticket that was never activated: \<open>X\<close> claims and closes it,
  \<^verbatim>\<open>involvedStaff\<close> is filled with \<open>x\<close>, and the last field of the line is empty.
\<close>

theorem C9_counterexample:
  "(let s = run toID_std
              [Join (mkUser ''X'' True) [] 2000,
               Close (RBool True) (Some (mkUser ''X'' True)) 3000]
              (game0 ''Other'' False, world0 ''Other'' False)
    in involvedStaff (fst s) = [''x''] \<and> staff (last (statsLog (snd s))) = []
       \<and> staff (last (statsLog (snd s))) \<noteq> join_comma (involvedStaff (fst s)))"
  by (simp add: eval_defs close_defs)

subsection \<open>C10: the outcome when the requester closes\<close>

text \<open>
  C10. When a forfeit closes an open ticket (the forfeiting player leaves a player count
  of at most one), and when the requester, not being staff, runs the close command on
  their own open ticket whose help room exists, the outcome passed to \<^verbatim>\<open>close\<close> is the
  boolean \<^verbatim>\<open>firstClaimTime \<noteq> 0\<close>, whatever the argument of the command: the result
  recorded in the game and in the statistics line is the positive result of the ticket's
  type if the ticket was ever claimed, and the negative one if it never was.
\<close>

theorem C10_requester_close_outcome:
  "(uid user \<in> set (playerTable g) \<and> open (tk g w)
      \<and> \<not> playerCount (removePlayer (uid user) g) - 1 > 0 \<longrightarrow>
      result (fst (forfeit toID user now g w)) =
        Some (boolResult (type (tk g w)) (firstClaimTime g \<noteq> 0))
      \<and> lineResult (last (statsLog (snd (forfeit toID user now g w)))) =
        Some (boolResult (type (tk g w)) (firstClaimTime g \<noteq> 0)))
   \<and> (target \<noteq> [] \<and> tickets w (toID inputUsername) = Some r \<and> open (heap w r)
      \<and> userid (heap w r) = uid user \<and> \<not> isStaff user \<and> rooms w (uid user) = Some g \<longrightarrow>
      fst (close_cmd toID target inputUsername rest user now w) = Reply
      \<and> map_option result (rooms (snd (close_cmd toID target inputUsername rest user now w))
                              (uid user)) =
        Some (Some (boolResult (type (tk g w)) (firstClaimTime g \<noteq> 0)))
      \<and> lineResult (last (statsLog (snd (close_cmd toID target inputUsername rest user now w)))) =
        Some (boolResult (type (tk g w)) (firstClaimTime g \<noteq> 0)))
   \<and> boolResult ty True \<in> set [approved, valid, assisted]
   \<and> boolResult ty False \<in> set [denied, invalid, unassisted]"
proof -
  have 1: "uid user \<in> set (playerTable g) \<and> open (tk g w)
      \<and> \<not> playerCount (removePlayer (uid user) g) - 1 > 0 \<longrightarrow>
      result (fst (forfeit toID user now g w)) =
        Some (boolResult (type (tk g w)) (firstClaimTime g \<noteq> 0))
      \<and> lineResult (last (statsLog (snd (forfeit toID user now g w)))) =
        Some (boolResult (type (tk g w)) (firstClaimTime g \<noteq> 0))"
    by (simp add: forfeit_def removePlayer_def close_defs)
  have 2: "target \<noteq> [] \<and> tickets w (toID inputUsername) = Some r \<and> open (heap w r)
      \<and> userid (heap w r) = uid user \<and> \<not> isStaff user \<and> rooms w (uid user) = Some g \<longrightarrow>
      fst (close_cmd toID target inputUsername rest user now w) = Reply
      \<and> map_option result (rooms (snd (close_cmd toID target inputUsername rest user now w))
                              (uid user)) =
        Some (Some (boolResult (type (tk g w)) (firstClaimTime g \<noteq> 0)))
      \<and> lineResult (last (statsLog (snd (close_cmd toID target inputUsername rest user now w)))) =
        Some (boolResult (type (tk g w)) (firstClaimTime g \<noteq> 0))"
    by (simp add: close_cmd_def close_defs)
  have 3: "boolResult ty True \<in> set [approved, valid, assisted]
      \<and> boolResult ty False \<in> set [denied, invalid, unassisted]"
    by (simp add: boolResult_def)
  from 1 2 3 show ?thesis by blast
qed

text \<open>
  The requester forfeits a ticket nobody claimed: \<open>unassisted\<close>. The requester closes,
  with the argument \<open>false\<close>, a ticket that \<open>X\<close> had claimed and left: \<open>assisted\<close>.
\<close>

theorem C10_witness:
  "(let s1 = forfeit toID_std (mkUser ''Ann'' False) 2000
               (game0 ''Other'' True) (world0 ''Other'' True);
        a = onJoin (mkUser ''X'' True) [] 2000 (game0 ''Other'' True) (world0 ''Other'' True);
        b = onLeave toID_std (mkUser ''X'' True) [] 3000 (fst a) (snd a);
        c = close_cmd toID_std ''Ann, false'' ''Ann'' ''false'' (mkUser ''Ann'' False) 4000
              (in_room b)
    in lineResult (last (statsLog (snd s1))) = Some unassisted
       \<and> fst c = Reply \<and> lineResult (last (statsLog (snd c))) = Some assisted)"
proof -
  let ?g0 = "game0 ''Other'' True" and ?w0 = "world0 ''Other'' True"
  let ?a = "onJoin (mkUser ''X'' True) [] 2000 ?g0 ?w0"
  let ?b = "onLeave toID_std (mkUser ''X'' True) [] 3000 (fst ?a) (snd ?a)"
  have f: "uid (mkUser ''Ann'' False) \<in> set (playerTable ?g0) \<and> open (tk ?g0 ?w0)
      \<and> \<not> playerCount (removePlayer (uid (mkUser ''Ann'' False)) ?g0) - 1 > 0"
    and f': "type (tk ?g0 ?w0) = ''Other''" "firstClaimTime ?g0 = 0"
    by (simp_all add: eval_defs)
  have c: "''Ann, false'' \<noteq> [] \<and> tickets (in_room ?b) (toID_std ''Ann'') = Some 0
      \<and> open (heap (in_room ?b) 0)
      \<and> userid (heap (in_room ?b) 0) = uid (mkUser ''Ann'' False) \<and> \<not> isStaff (mkUser ''Ann'' False)
      \<and> rooms (in_room ?b) (uid (mkUser ''Ann'' False)) = Some (fst ?b)"
    and c': "type (tk (fst ?b) (in_room ?b)) = ''Other''" "firstClaimTime (fst ?b) = 2000"
    by (simp_all add: eval_defs in_room_def)
  have r: "boolResult ''Other'' False = unassisted" "boolResult ''Other'' True = assisted"
    by (simp_all add: boolResult_def)
  have 1: "lineResult (last (statsLog (snd (forfeit toID_std (mkUser ''Ann'' False) 2000 ?g0 ?w0))))
           = Some unassisted"
    using C10_requester_close_outcome
      [of "mkUser ''Ann'' False" ?g0 ?w0 toID_std 2000 "''Ann, false''" "''Ann''" 0 "''false''"] f
    by (simp add: f' r)
  have 2: "fst (close_cmd toID_std ''Ann, false'' ''Ann'' ''false'' (mkUser ''Ann'' False) 4000
                 (in_room ?b)) = Reply
        \<and> lineResult (last (statsLog (snd (close_cmd toID_std ''Ann, false'' ''Ann'' ''false''
                 (mkUser ''Ann'' False) 4000 (in_room ?b))))) = Some assisted"
    using C10_requester_close_outcome
      [of "mkUser ''Ann'' False" "fst ?b" "in_room ?b" toID_std 4000 "''Ann, false''" "''Ann''" 0
          "''false''"] c
    by (simp add: c' r)
  from 1 2 show ?thesis by (simp only: Let_def)
qed

subsection \<open>C4: the claimant of a closed ticket\<close>

text \<open>
  C4 (amended). Closing does not clear \<^verbatim>\<open>claimed\<close>: \<^verbatim>\<open>HelpTicket.close\<close> and \<^verbatim>\<open>destroy\<close>
  leave the ticket with \<^verbatim>\<open>open\<close> false and \<^verbatim>\<open>claimed\<close> as it was, and a successful close
  command then stores the name of the closing user in \<^verbatim>\<open>claimed\<close> of the ticket it has
  just closed (the table entry, which is the ticket of the help room's game if there is
  such a room). On a ticket whose \<^verbatim>\<open>open\<close> is false, join, leave and message events
  leave \<^verbatim>\<open>claimed\<close> unchanged.
\<close>

theorem C4_claimed_after_close:
  "claimed (tk (fst (close toID res st now g w)) (snd (close toID res st now g w)))
     = claimed (tk g w)
   \<and> \<not> open (tk (fst (close toID res st now g w)) (snd (close toID res st now g w)))
   \<and> claimed (tk (fst (destroy now g w)) (snd (destroy now g w))) = claimed (tk g w)
   \<and> (tickets w (userid (tk g w)) \<noteq> None \<longrightarrow>
        \<not> open (tk (fst (destroy now g w)) (snd (destroy now g w))))
   \<and> (\<not> open (tk g w) \<longrightarrow>
        claimed (tk (fst (onJoin u us now g w)) (snd (onJoin u us now g w))) = claimed (tk g w)
        \<and> claimed (tk (fst (onLeave toID u old now g w)) (snd (onLeave toID u old now g w)))
            = claimed (tk g w)
        \<and> claimed (tk (fst (onLogMessage toID m u now g w)) (snd (onLogMessage toID m u now g w)))
            = claimed (tk g w))
   \<and> (fst (close_cmd toID target inputUsername rest user now w) = Reply
        \<and> tickets w (toID inputUsername) = Some r \<and> linked w r \<longrightarrow>
        claimed (heap (snd (close_cmd toID target inputUsername rest user now w)) r)
          = Some (name user)
        \<and> \<not> open (heap (snd (close_cmd toID target inputUsername rest user now w)) r))"
proof -
  have 1: "claimed (tk (fst (close toID res st now g w)) (snd (close toID res st now g w)))
     = claimed (tk g w)
   \<and> \<not> open (tk (fst (close toID res st now g w)) (snd (close toID res st now g w)))"
    by (simp add: close_defs)
  have 2: "claimed (tk (fst (destroy now g w)) (snd (destroy now g w))) = claimed (tk g w)
   \<and> (tickets w (userid (tk g w)) \<noteq> None \<longrightarrow>
        \<not> open (tk (fst (destroy now g w)) (snd (destroy now g w))))"
    by (simp add: destroy_def close_defs)
  have 3: "\<not> open (tk g w) \<longrightarrow>
        claimed (tk (fst (onJoin u us now g w)) (snd (onJoin u us now g w))) = claimed (tk g w)
        \<and> claimed (tk (fst (onLeave toID u old now g w)) (snd (onLeave toID u old now g w)))
            = claimed (tk g w)
        \<and> claimed (tk (fst (onLogMessage toID m u now g w)) (snd (onLogMessage toID m u now g w)))
            = claimed (tk g w)"
    by (simp add: onJoin_def onLeave_def onLogMessage_def removePlayer_def Let_def tk_def
        upd_tk_def)
  have 4: "fst (close_cmd toID target inputUsername rest user now w) = Reply
        \<and> tickets w (toID inputUsername) = Some r \<and> linked w r \<longrightarrow>
        claimed (heap (snd (close_cmd toID target inputUsername rest user now w)) r)
          = Some (name user)
        \<and> \<not> open (heap (snd (close_cmd toID target inputUsername rest user now w)) r)"
    by (auto simp: close_cmd_def linked_def close_defs split: if_splits option.splits)
  from 1 2 3 4 show ?thesis by blast
qed

text \<open>
  Staff member \<open>X\<close> closes, by the command, a ticket that nobody had claimed; a user who
  joins the closed ticket afterwards changes nothing.
\<close>

theorem C4_witness:
  "(let w1 = in_room (game0 ''Other'' True, world0 ''Other'' True);
        c = close_cmd toID_std ''Ann'' ''Ann'' [] (mkUser ''X'' True) 3000 w1;
        g = the (rooms (snd c) ''ann'');
        j = onJoin (mkUser ''Y'' True) [] 4000 g (snd c)
    in fst c = Reply \<and> tickets w1 (toID_std ''Ann'') = Some 0 \<and> linked w1 0
       \<and> claimed (heap (snd c) 0) = Some ''X'' \<and> \<not> open (heap (snd c) 0)
       \<and> \<not> open (tk g (snd c)) \<and> claimed (tk (fst j) (snd j)) = Some ''X'')"
proof -
  let ?w1 = "in_room (game0 ''Other'' True, world0 ''Other'' True)"
  let ?c = "close_cmd toID_std ''Ann'' ''Ann'' [] (mkUser ''X'' True) 3000 ?w1"
  let ?g = "the (rooms (snd ?c) ''ann'')"
  have h: "fst ?c = Reply \<and> tickets ?w1 (toID_std ''Ann'') = Some 0 \<and> linked ?w1 0"
    by (simp add: eval_defs in_room_def linked_def close_cmd_def close_defs)
  have n: "name (mkUser ''X'' True) = ''X''" by (simp add: mkUser_def)
  have g: "ticket ?g = 0"
    by (simp add: eval_defs in_room_def close_cmd_def close_defs)
  have o: "\<not> open (tk ?g (snd ?c))"
    by (simp add: eval_defs in_room_def close_cmd_def close_defs)
  have k: "claimed (tk ?g (snd ?c)) = claimed (heap (snd ?c) 0)"
    by (simp add: tk_def g)
  have b: "claimed (heap (snd ?c) 0) = Some ''X'' \<and> \<not> open (heap (snd ?c) 0)"
    using C4_claimed_after_close
      [where toID = toID_std and target = "''Ann''" and inputUsername = "''Ann''" and rest = "[]"
         and user = "mkUser ''X'' True" and now = 3000 and w = ?w1 and r = 0] h n
    by simp
  have a: "claimed (tk (fst (onJoin (mkUser ''Y'' True) [] 4000 ?g (snd ?c)))
                       (snd (onJoin (mkUser ''Y'' True) [] 4000 ?g (snd ?c))))
           = claimed (tk ?g (snd ?c))"
    using C4_claimed_after_close
      [where toID = toID_std and g = ?g and w = "snd ?c" and now = 4000
         and u = "mkUser ''Y'' True" and us = "[]"] o
    by blast
  from h b o a k show ?thesis by (simp only: Let_def) simp
qed

text \<open>
  C4 as stated fails on the same run: after the close command the ticket has \<^verbatim>\<open>open\<close>
  false and \<^verbatim>\<open>claimed\<close> set, to a name that was stored after the ticket was closed.
\<close>

theorem C4_counterexample:
  "(let w1 = in_room (game0 ''Other'' True, world0 ''Other'' True);
        c = close_cmd toID_std ''Ann'' ''Ann'' [] (mkUser ''X'' True) 3000 w1
    in map_option claimed (live w1 ''ann'') = Some None
       \<and> map_option open (live (snd c) ''ann'') = Some False
       \<and> map_option claimed (live (snd c) ''ann'') = Some (Some ''X''))"
  by (simp add: eval_defs in_room_def close_cmd_def close_defs live_def)

subsection \<open>C3: closing a closed ticket\<close>

text \<open>
  C3 (the code departs from the claim). Staff member \<open>X\<close> closes the requester's ticket
  with the close command: one statistics line. A second close command is rejected and
  \<^verbatim>\<open>destroy\<close> writes nothing, as the claim says. But when the requester is then banned,
  \<^verbatim>\<open>punishmentfilter\<close> calls \<^verbatim>\<open>close('ticketban')\<close> on the game of the help room without
  looking at \<^verbatim>\<open>open\<close>, and a second line is written for the same ticket.
\<close>

theorem C3_second_statistics_line:
  "(let w1 = in_room (game0 ''Other'' True, world0 ''Other'' True);
        c = close_cmd toID_std ''Ann'' ''Ann'' [] (mkUser ''X'' True) 3000 w1;
        c2 = close_cmd toID_std ''Ann'' ''Ann'' [] (mkUser ''X'' True) 3500 (snd c);
        d = destroy 3600 (the (rooms (snd c) ''ann'')) (snd c);
        p = punishmentfilter toID_std (Inr ''ann'') ''BAN'' 4000 (snd c)
    in fst c = Reply \<and> map lineResult (statsLog (snd c)) = [Some assisted]
       \<and> map_option open (live (snd c) ''ann'') = Some False
       \<and> fst c2 = ErrorReply \<and> statsLog (snd c2) = statsLog (snd c)
       \<and> statsLog (snd d) = statsLog (snd c)
       \<and> map lineResult (statsLog p) = [Some assisted, Some ticketban]
       \<and> length (statsLog p) = 2)"
  by (simp add: eval_defs in_room_def close_cmd_def close_defs live_def destroy_def
      punishmentfilter_def punishmentfilter_id_def boolResult_def)

text \<open>The two lines of that run, read off the evaluation.\<close>

theorem C3_witness:
  "length (statsLog (punishmentfilter toID_std (Inr ''ann'') ''BAN'' 4000
      (snd (close_cmd toID_std ''Ann'' ''Ann'' [] (mkUser ''X'' True) 3000
              (in_room (game0 ''Other'' True, world0 ''Other'' True)))))) = 2"
  using C3_second_statistics_line by (simp add: Let_def)

subsection \<open>C7: the unclaimed time\<close>

text \<open>
  C7 (the code departs from the claim). A ticket is created inactive at \<open>1000\<close>. Staff
  member \<open>X\<close> claims it at \<open>2000\<close> and leaves at \<open>3000\<close>; \<open>Y\<close> claims it at \<open>4000\<close>; the
  requester activates it at \<open>5000\<close> with a first real message; \<open>Y\<close> closes it at \<open>9000\<close>.
  From activation to close the ticket is claimed throughout, so the unclaimed intervals
  sum to \<open>0\<close>, but the unclaimed time recorded is \<open>6000\<close>: the leave at \<open>3000\<close> started
  the unclaimed clock of a ticket that was not active, and the claim at \<open>4000\<close> did not
  stop it.
\<close>

theorem C7_unclaimed_time_overcounted:
  "(let es = [Join (mkUser ''X'' True) [mkUser ''Ann'' False, mkUser ''X'' True] 2000,
              Leave (mkUser ''X'' True) [] 3000,
              Join (mkUser ''Y'' True) [mkUser ''Ann'' False, mkUser ''Y'' True] 4000,
              LogMessage ''my account was hacked'' (mkUser ''Ann'' False) 5000,
              Close (RBool True) (Some (mkUser ''Y'' True)) 9000];
        s = run toID_std es (game0 ''Other'' False, world0 ''Other'' False)
    in activationTime (fst s) = 5000 \<and> closeTime (fst s) = 9000
       \<and> spec_unclaimedTime toID_std 1000 es (game0 ''Other'' False, world0 ''Other'' False) = 0
       \<and> unclaimedTime (fst s) = 6000
       \<and> map inactiveTime (statsLog (snd s)) = [6000])"
  by (simp add: eval_defs close_defs onLogMessage_def blockedMessages_def set_add_def)

text \<open>The recorded time of that run exceeds the sum of the unclaimed intervals.\<close>

theorem C7_witness:
  "spec_unclaimedTime toID_std 1000
     [Join (mkUser ''X'' True) [mkUser ''Ann'' False, mkUser ''X'' True] 2000,
      Leave (mkUser ''X'' True) [] 3000,
      Join (mkUser ''Y'' True) [mkUser ''Ann'' False, mkUser ''Y'' True] 4000,
      LogMessage ''my account was hacked'' (mkUser ''Ann'' False) 5000,
      Close (RBool True) (Some (mkUser ''Y'' True)) 9000]
     (game0 ''Other'' False, world0 ''Other'' False)
   < unclaimedTime (fst (run toID_std
     [Join (mkUser ''X'' True) [mkUser ''Ann'' False, mkUser ''X'' True] 2000,
      Leave (mkUser ''X'' True) [] 3000,
      Join (mkUser ''Y'' True) [mkUser ''Ann'' False, mkUser ''Y'' True] 4000,
      LogMessage ''my account was hacked'' (mkUser ''Ann'' False) 5000,
      Close (RBool True) (Some (mkUser ''Y'' True)) 9000]
     (game0 ''Other'' False, world0 ''Other'' False)))"
  using C7_unclaimed_time_overcounted by (simp add: Let_def)

subsection \<open>C8: loading the persisted table\<close>

text \<open>What \<^verbatim>\<open>writeStats\<close> leaves alone in the state around the game.\<close>

lemma writeStats_world [simp]:
  "heap (snd (writeStats res now g w)) = heap w"
  "nextRef (snd (writeStats res now g w)) = nextRef w"
  "tickets (snd (writeStats res now g w)) = tickets w"
  "rooms (snd (writeStats res now g w)) = rooms w"
  "roomPunishments (snd (writeStats res now g w)) = roomPunishments w"
  "length (statsLog (snd (writeStats res now g w))) = length (statsLog w) + 1"
  by (simp_all add: writeStats_def Let_def)

text \<open>
  Loading an entry keeps every reference of the table below the next free one, so a
  newly placed object never overwrites one the table already holds.
\<close>

lemma load_entry_refs:
  assumes "\<And>k r. tickets w k = Some r \<Longrightarrow> r < nextRef w"
  shows "tickets (load_entry oldPlugins now e w) k = Some r
          \<Longrightarrow> r < nextRef (load_entry oldPlugins now e w)"
  using assms [of k r]
  by (cases "snd e")
     (auto simp: load_entry_def alloc_def Let_def less_Suc_eq split: if_splits option.splits)

lemma load_entry_live:
  assumes "\<And>k r. tickets w k = Some r \<Longrightarrow> r < nextRef w"
  shows "live (load_entry oldPlugins now e w) k =
     (case snd e of
        TicketEntry t \<Rightarrow>
          if k = fst e \<and> \<not> created t + TICKET_CACHE_TIME \<le> now
          then Some (if open t \<and> \<not> oldPlugins then t\<lparr>open := False\<rparr> else t)
          else live w k
      | BannedEntry i exp reason \<Rightarrow> live w k)"
proof (cases "snd e")
  case (BannedEntry i exp reason)
  then show ?thesis by (simp add: load_entry_def live_def)
next
  case (TicketEntry t)
  show ?thesis
  proof (cases "tickets w k")
    case None
    with TicketEntry show ?thesis
      by (auto simp: load_entry_def alloc_def live_def Let_def split: option.splits)
  next
    case (Some r)
    with assms have "r \<noteq> nextRef w" by fastforce
    with TicketEntry Some show ?thesis
      by (auto simp: load_entry_def alloc_def live_def Let_def split: option.splits)
  qed
qed

lemma load_fold_live:
  "distinct (map fst data) \<Longrightarrow> (\<And>k r. tickets w k = Some r \<Longrightarrow> r < nextRef w) \<Longrightarrow>
   live (fold (load_entry oldPlugins now) data w) k =
     (case map_of data k of
        Some (TicketEntry t) \<Rightarrow>
          if created t + TICKET_CACHE_TIME \<le> now then live w k
          else Some (if open t \<and> \<not> oldPlugins then t\<lparr>open := False\<rparr> else t)
      | Some (BannedEntry i exp reason) \<Rightarrow> live w k
      | None \<Rightarrow> live w k)"
proof (induction data arbitrary: w)
  case Nil
  then show ?case by simp
next
  case (Cons e data)
  let ?w = "load_entry oldPlugins now e w"
  have refs: "\<And>k r. tickets ?w k = Some r \<Longrightarrow> r < nextRef ?w"
    using load_entry_refs [of w] Cons.prems(2) by blast
  have d: "distinct (map fst data)" and notin: "fst e \<notin> fst ` set data"
    using Cons.prems(1) by auto
  have ih: "live (fold (load_entry oldPlugins now) data ?w) k =
     (case map_of data k of
        Some (TicketEntry t) \<Rightarrow>
          if created t + TICKET_CACHE_TIME \<le> now then live ?w k
          else Some (if open t \<and> \<not> oldPlugins then t\<lparr>open := False\<rparr> else t)
      | Some (BannedEntry i exp reason) \<Rightarrow> live ?w k
      | None \<Rightarrow> live ?w k)"
    using Cons.IH [OF d refs] by simp
  have step: "live ?w k =
     (case snd e of
        TicketEntry t \<Rightarrow>
          if k = fst e \<and> \<not> created t + TICKET_CACHE_TIME \<le> now
          then Some (if open t \<and> \<not> oldPlugins then t\<lparr>open := False\<rparr> else t)
          else live w k
      | BannedEntry i exp reason \<Rightarrow> live w k)"
    using load_entry_live [of w] Cons.prems(2) by blast
  show ?case
  proof (cases "k = fst e")
    case True
    with notin have "map_of data k = None" by (simp add: map_of_eq_None_iff)
    with True ih step show ?thesis
      by (cases e; cases "snd e") (auto split: Persisted.splits)
  next
    case False
    with ih step show ?thesis
      by (cases e; cases "snd e") (auto split: option.splits Persisted.splits)
  qed
qed

lemma load_fold_punishments:
  "roomPunishments (fold (load_entry oldPlugins now) data w) =
     roomPunishments w @ converted_bans now data"
proof (induction data arbitrary: w)
  case Nil
  then show ?case by (simp add: converted_bans_def)
next
  case (Cons e data)
  have "roomPunishments (load_entry oldPlugins now e w) =
          roomPunishments w @ converted_bans now [e]"
    by (cases "snd e")
       (auto simp: load_entry_def converted_bans_def alloc_def Let_def split: option.splits)
  with Cons.IH [of "load_entry oldPlugins now e w"] show ?case
    by (simp add: converted_bans_def)
qed

text \<open>
  C8 (amended). After the load of a ticket file with distinct keys, the table holds
  exactly the ticket entries younger than the retention window: an entry with
  \<^verbatim>\<open>created + 24 hours <= now\<close> is dropped, an entry persisted open is registered with
  \<^verbatim>\<open>open\<close> false unless the load is a hot reload, and banned entries are not kept. The
  banned entries that have not expired are handed to the ban registry, in order; expired
  ones are dropped without conversion. For a dropped entry that was still open, the load
  finalizes statistics exactly once (one line) when the help room of the ticket with its
  game still exists, and writes nothing when there is no such room.
\<close>

theorem C8_load_tickets:
  assumes "distinct (map fst data)"
  shows "live (load_tickets oldPlugins now (Some data) w) k =
           (case map_of data k of
              Some (TicketEntry t) \<Rightarrow>
                if created t + TICKET_CACHE_TIME \<le> now then None
                else Some (if open t \<and> \<not> oldPlugins then t\<lparr>open := False\<rparr> else t)
            | Some (BannedEntry i exp reason) \<Rightarrow> None
            | None \<Rightarrow> None)
       \<and> roomPunishments (load_tickets oldPlugins now (Some data) w) =
           roomPunishments w @ converted_bans now data
       \<and> (created t + TICKET_CACHE_TIME \<le> now \<and> open t \<longrightarrow>
           statsLog (load_entry oldPlugins now (k, TicketEntry t) w) =
             (case rooms w (userid t) of
                None \<Rightarrow> statsLog w
              | Some g \<Rightarrow> statsLog (snd (writeStats (RBool False) now g w)))
           \<and> length (statsLog (load_entry oldPlugins now (k, TicketEntry t) w)) =
             length (statsLog w) + (case rooms w (userid t) of None \<Rightarrow> 0 | Some g \<Rightarrow> 1))"
proof -
  let ?w = "w\<lparr>tickets := Map.empty\<rparr>"
  have e: "live ?w k = None" by (simp add: live_def)
  have 1: "live (load_tickets oldPlugins now (Some data) w) k =
           (case map_of data k of
              Some (TicketEntry t) \<Rightarrow>
                if created t + TICKET_CACHE_TIME \<le> now then None
                else Some (if open t \<and> \<not> oldPlugins then t\<lparr>open := False\<rparr> else t)
            | Some (BannedEntry i exp reason) \<Rightarrow> None
            | None \<Rightarrow> None)"
    using load_fold_live [OF assms, of ?w oldPlugins now k]
    by (simp add: load_tickets_def e split: option.splits Persisted.splits)
  have 2: "roomPunishments (load_tickets oldPlugins now (Some data) w) =
           roomPunishments w @ converted_bans now data"
    by (simp add: load_tickets_def load_fold_punishments)
  have 3: "created t + TICKET_CACHE_TIME \<le> now \<and> open t \<longrightarrow>
           statsLog (load_entry oldPlugins now (k, TicketEntry t) w) =
             (case rooms w (userid t) of
                None \<Rightarrow> statsLog w
              | Some g \<Rightarrow> statsLog (snd (writeStats (RBool False) now g w)))
           \<and> length (statsLog (load_entry oldPlugins now (k, TicketEntry t) w)) =
             length (statsLog w) + (case rooms w (userid t) of None \<Rightarrow> 0 | Some g \<Rightarrow> 1)"
    by (auto simp: load_entry_def Let_def split: option.splits)
  from 1 2 3 show ?thesis by blast
qed

text \<open>
  A hot reload at time \<open>90000000\<close>: the requester's ticket, created at \<open>1000\<close> and still
  open, is older than the window and its help room exists; \<open>bob\<close>'s open ticket is
  young; \<open>eve\<close> is banned until later, \<open>mallory\<close>'s ban has expired.
\<close>

theorem C8_witness:
  "(let data = [(''ann'', TicketEntry (ticket0 ''Other'' True)),
                (''bob'', TicketEntry ((ticket0 ''Appeal'' True)
                            \<lparr>creator := ''Bob'', userid := ''bob'', created := 80000000\<rparr>)),
                (''eve'', BannedEntry ''eve'' (Some 99000000) ''spam''),
                (''mallory'', BannedEntry ''mallory'' (Some 5000) ''spam'')];
        w = in_room (game0 ''Other'' True, world0 ''Other'' True);
        w' = load_tickets True 90000000 (Some data) w
    in distinct (map fst data)
       \<and> live w' ''ann'' = None
       \<and> map_option open (live w' ''bob'') = Some True
       \<and> map_option open (live (load_tickets False 90000000 (Some data) w) ''bob'') = Some False
       \<and> live w' ''eve'' = None
       \<and> roomPunishments w' = [(''eve'', Some 99000000, ''spam'')]
       \<and> length (statsLog (load_entry True 90000000
                   (''ann'', TicketEntry (ticket0 ''Other'' True)) w)) = 1)"
proof -
  let ?data = "[(''ann'', TicketEntry (ticket0 ''Other'' True)),
                (''bob'', TicketEntry ((ticket0 ''Appeal'' True)
                            \<lparr>creator := ''Bob'', userid := ''bob'', created := 80000000\<rparr>)),
                (''eve'', BannedEntry ''eve'' (Some 99000000) ''spam''),
                (''mallory'', BannedEntry ''mallory'' (Some 5000) ''spam'')]"
  let ?w = "in_room (game0 ''Other'' True, world0 ''Other'' True)"
  have d: "distinct (map fst ?data)" by simp
  have t: "created (ticket0 ''Other'' True) + TICKET_CACHE_TIME \<le> 90000000
      \<and> open (ticket0 ''Other'' True)"
    by (simp add: ticket0_def TICKET_CACHE_TIME_def)
  have r: "rooms ?w (userid (ticket0 ''Other'' True)) = Some (game0 ''Other'' True)"
    "roomPunishments ?w = []" "statsLog ?w = []"
    by (simp_all add: in_room_def eval_defs)
  note th = C8_load_tickets [OF d, where now = 90000000 and w = ?w
                              and t = "ticket0 ''Other'' True"]
  have a: "live (load_tickets True 90000000 (Some ?data) ?w) ''ann'' = None"
    using th [of True "''ann''"] by (simp add: ticket0_def TICKET_CACHE_TIME_def)
  have b: "map_option open (live (load_tickets True 90000000 (Some ?data) ?w) ''bob'') = Some True"
    using th [of True "''bob''"] by (simp add: ticket0_def TICKET_CACHE_TIME_def)
  have b': "map_option open (live (load_tickets False 90000000 (Some ?data) ?w) ''bob'') = Some False"
    using th [of False "''bob''"] by (simp add: ticket0_def TICKET_CACHE_TIME_def)
  have e: "live (load_tickets True 90000000 (Some ?data) ?w) ''eve'' = None"
    using th [of True "''eve''"] by simp
  have p: "roomPunishments (load_tickets True 90000000 (Some ?data) ?w)
             = [(''eve'', Some 99000000, ''spam'')]"
    using th [of True "''ann''"] by (simp add: r converted_bans_def)
  have s: "length (statsLog (load_entry True 90000000
                   (''ann'', TicketEntry (ticket0 ''Other'' True)) ?w)) = 1"
    using th [of True "''ann''"] t by (simp add: r)
  from d a b b' e p s show ?thesis by (simp only: Let_def simp_thms)
qed

text \<open>
  C8 as stated fails after a real restart, when no help room exists any more: the old
  ticket that was still open is dropped without any statistics line, and the expired
  ban is not turned into a ban-registry entry.
\<close>

theorem C8_counterexample:
  "(let data = [(''ann'', TicketEntry (ticket0 ''Other'' True)),
                (''mallory'', BannedEntry ''mallory'' (Some 5000) ''spam'')];
        w' = load_tickets False 90000000 (Some data) (world0 ''Other'' True)
    in open (ticket0 ''Other'' True)
       \<and> created (ticket0 ''Other'' True) + TICKET_CACHE_TIME \<le> 90000000
       \<and> live w' ''ann'' = None \<and> statsLog w' = []
       \<and> live w' ''mallory'' = None \<and> roomPunishments w' = [])"
  by (simp add: load_tickets_def load_entry_def live_def ticket0_def world0_def
      TICKET_CACHE_TIME_def)

end
